theory Spec2Isabelle
  imports Main "HOL-Library.Word"
begin

unbundle bit_operations_syntax

section \<open>Frame memory budget (class FrameMemoryBudgetSystem)\<close>

text \<open>
  The byte counters are \<open>uint64_t\<close>: 64-bit words, whose \<open>+\<close> and \<open>*\<close> wrap around
  and whose \<open>div\<close> and \<open>\<le>\<close> are the unsigned ones.
\<close>

type_synonym uint64 = "64 word"

text \<open>
  \<open>enum class FrameMemoryDomain\<close>. The enumerator \<open>Count\<close> is the length of the
  table \<open>Budgets\<close>, not a slot of it: indexing with it reads past the array, which C++
  leaves undefined. The model keeps the eight slots, so the table
  \<open>FrameMemoryBudget Budgets[Count]\<close> is a total function on them and the cast
  \<open>(uint8_t)domain\<close> is the identity.
\<close>

datatype FrameMemoryDomain =
  Geometry | Animation | Textures | Particles | AI | Audio | Physics | UI

text \<open>The slots in the order of their ordinals \<open>0 .. Count - 1\<close>.\<close>

definition FrameMemoryDomain_slots :: "FrameMemoryDomain list" where
  "FrameMemoryDomain_slots = [Geometry, Animation, Textures, Particles, AI, Audio, Physics, UI]"

record FrameMemoryBudget =
  MaxBytes :: uint64
  UsedBytes :: uint64

record FrameMemoryBudgetSystem =
  Budgets :: "FrameMemoryDomain \<Rightarrow> FrameMemoryBudget"
  TotalBudget :: uint64

text \<open>\<open>Reset\<close>: \<open>memset\<close> of the table to zero bytes, then \<open>TotalBudget = 0\<close>.\<close>

definition Reset :: "FrameMemoryBudgetSystem \<Rightarrow> FrameMemoryBudgetSystem" where
  "Reset s = s\<lparr>Budgets := (\<lambda>d. \<lparr>MaxBytes = 0, UsedBytes = 0\<rparr>), TotalBudget := 0\<rparr>"

text \<open>
  The constructor runs \<open>Reset\<close> on the object's storage, whose content before that is
  indeterminate: the argument stands for it.
\<close>

definition FrameMemoryBudgetSystem_ctor :: "FrameMemoryBudgetSystem \<Rightarrow> FrameMemoryBudgetSystem" where
  "FrameMemoryBudgetSystem_ctor raw = Reset raw"

text \<open>One assignment \<open>Budgets[d] = { m, 0 }\<close>.\<close>

definition set_budget ::
  "FrameMemoryDomain \<Rightarrow> uint64 \<Rightarrow> FrameMemoryBudgetSystem \<Rightarrow> FrameMemoryBudgetSystem" where
  "set_budget d m s = s\<lparr>Budgets := (Budgets s)(d := \<lparr>MaxBytes = m, UsedBytes = 0\<rparr>)\<rparr>"

text \<open>\<open>Initialize\<close>: the nine assignments in the order of the source.\<close>

definition Initialize :: "uint64 \<Rightarrow> FrameMemoryBudgetSystem \<Rightarrow> FrameMemoryBudgetSystem" where
  "Initialize totalFrameBudget s =
     (let s0 = s\<lparr>TotalBudget := totalFrameBudget\<rparr>;
          s1 = set_budget Geometry (totalFrameBudget * 30 div 100) s0;
          s2 = set_budget Textures (totalFrameBudget * 25 div 100) s1;
          s3 = set_budget Animation (totalFrameBudget * 10 div 100) s2;
          s4 = set_budget Particles (totalFrameBudget * 8 div 100) s3;
          s5 = set_budget Physics (totalFrameBudget * 8 div 100) s4;
          s6 = set_budget AI (totalFrameBudget * 7 div 100) s5;
          s7 = set_budget Audio (totalFrameBudget * 6 div 100) s6
      in set_budget UI (totalFrameBudget * 6 div 100) s7)"

text \<open>\<open>BeginFrame\<close>: the loop over the slots, each step \<open>Budgets[i].UsedBytes = 0\<close>.\<close>

definition clear_used :: "FrameMemoryDomain \<Rightarrow> FrameMemoryBudgetSystem \<Rightarrow> FrameMemoryBudgetSystem" where
  "clear_used d s = s\<lparr>Budgets := (Budgets s)(d := (Budgets s d)\<lparr>UsedBytes := 0\<rparr>)\<rparr>"

definition BeginFrame :: "FrameMemoryBudgetSystem \<Rightarrow> FrameMemoryBudgetSystem" where
  "BeginFrame s = fold clear_used FrameMemoryDomain_slots s"

text \<open>
  \<open>Request\<close> returns the verdict and the state after the call. The sum
  \<open>budget.UsedBytes + bytes\<close> is the 64-bit one, in the test and in the update.
\<close>

definition Request ::
  "FrameMemoryDomain \<Rightarrow> uint64 \<Rightarrow> FrameMemoryBudgetSystem \<Rightarrow> bool \<times> FrameMemoryBudgetSystem" where
  "Request domain bytes s =
     (let budget = Budgets s domain
      in if UsedBytes budget + bytes > MaxBytes budget then (False, s)
         else (True, s\<lparr>Budgets := (Budgets s)(domain := budget\<lparr>UsedBytes := UsedBytes budget + bytes\<rparr>)\<rparr>))"

definition GetRemaining :: "FrameMemoryBudgetSystem \<Rightarrow> FrameMemoryDomain \<Rightarrow> uint64" where
  "GetRemaining s domain =
     (let budget = Budgets s domain
      in if MaxBytes budget > UsedBytes budget then MaxBytes budget - UsedBytes budget else 0)"

text \<open>
  The states an object can be in: constructed over any storage, then any sequence of the
  public member functions that change it.
\<close>

inductive mem_reachable :: "FrameMemoryBudgetSystem \<Rightarrow> bool" where
  mr_ctor: "mem_reachable (FrameMemoryBudgetSystem_ctor raw)"
| mr_Initialize: "mem_reachable s \<Longrightarrow> mem_reachable (Initialize t s)"
| mr_BeginFrame: "mem_reachable s \<Longrightarrow> mem_reachable (BeginFrame s)"
| mr_Request: "mem_reachable s \<Longrightarrow> mem_reachable (snd (Request d b s))"
| mr_Reset: "mem_reachable s \<Longrightarrow> mem_reachable (Reset s)"

section \<open>Single-precision floats\<close>

text \<open>
  The error ledger computes in \<open>float\<close>, taken here as IEEE 754 binary32 with every
  operation rounded to nearest, ties to even, and no wider intermediate precision. A float
  is its 32-bit pattern: sign bit, eight exponent bits, 23 fraction bits. A finite float
  with sign \<open>s\<close>, exponent field \<open>x\<close> and fraction \<open>f\<close> is
  \<open>(-1)^s * f_sig * 2 ^ f_pow\<close>, where the significand \<open>f_sig\<close> is \<open>2^23 + f\<close>
  and \<open>f_pow\<close> is \<open>x - 150\<close> for a normal number, and \<open>f\<close> and \<open>-149\<close> for a
  subnormal one. The exponent field 255 holds the infinities (fraction 0) and the NaNs.
\<close>

type_synonym float32 = "32 word"

definition f_sign :: "float32 \<Rightarrow> bool" where
  "f_sign w = (unat w \<ge> 2 ^ 31)"

definition f_exp :: "float32 \<Rightarrow> nat" where
  "f_exp w = (unat w div 2 ^ 23) mod 256"

definition f_man :: "float32 \<Rightarrow> nat" where
  "f_man w = unat w mod 2 ^ 23"

definition f_pack :: "bool \<Rightarrow> nat \<Rightarrow> nat \<Rightarrow> float32" where
  "f_pack s e m = of_nat ((if s then 2 ^ 31 else 0) + e * 2 ^ 23 + m)"

definition is_nan :: "float32 \<Rightarrow> bool" where
  "is_nan w = (f_exp w = 255 \<and> f_man w \<noteq> 0)"

definition is_inf :: "float32 \<Rightarrow> bool" where
  "is_inf w = (f_exp w = 255 \<and> f_man w = 0)"

definition is_zero :: "float32 \<Rightarrow> bool" where
  "is_zero w = (f_exp w = 0 \<and> f_man w = 0)"

text \<open>The NaN an invalid operation yields. Only \<open>is_nan\<close> of it matters below.\<close>

definition f_nan :: float32 where
  "f_nan = f_pack False 255 (2 ^ 22)"

definition f_sig :: "float32 \<Rightarrow> nat" where
  "f_sig w = (if f_exp w = 0 then f_man w else 2 ^ 23 + f_man w)"

definition f_pow :: "float32 \<Rightarrow> int" where
  "f_pow w = (if f_exp w = 0 then - 149 else int (f_exp w) - 150)"

definition f_int :: "float32 \<Rightarrow> int" where
  "f_int w = (if f_sign w then - int (f_sig w) else int (f_sig w))"

text \<open>The number of binary digits of a natural number.\<close>

fun bitlen :: "nat \<Rightarrow> nat" where
  "bitlen n = (if n = 0 then 0 else Suc (bitlen (n div 2)))"

declare bitlen.simps [simp del]

text \<open>
  Rounding: \<open>f_round s m e\<close> is the float nearest to \<open>(-1)^s * m * 2^e\<close> for
  \<open>m > 0\<close>, ties to even. \<open>rne m d\<close> drops the low \<open>d\<close> bits of \<open>m\<close>;
  \<open>f_quantum\<close> is the weight of the last bit that is kept (at most 24 bits, and none
  below \<open>2^-149\<close>); \<open>f_encode\<close> renormalises after a carry out of the 24 bits and
  \<open>f_finite\<close> overflows to infinity.
\<close>

definition rne :: "nat \<Rightarrow> nat \<Rightarrow> nat" where
  "rne m d =
     (if m mod 2 ^ d > 2 ^ (d - 1) \<or> (m mod 2 ^ d = 2 ^ (d - 1) \<and> odd (m div 2 ^ d))
      then m div 2 ^ d + 1 else m div 2 ^ d)"

definition f_quantum :: "nat \<Rightarrow> int \<Rightarrow> int" where
  "f_quantum m e = max (int (bitlen m) - 24 + e) (- 149)"

definition f_scale :: "nat \<Rightarrow> int \<Rightarrow> int \<Rightarrow> nat" where
  "f_scale m e q = (if q \<le> e then m * 2 ^ nat (e - q) else rne m (nat (q - e)))"

definition f_finite :: "bool \<Rightarrow> nat \<Rightarrow> int \<Rightarrow> float32" where
  "f_finite s sig q =
     (if q > 104 then f_pack s 255 0
      else if sig < 2 ^ 23 then f_pack s 0 sig
      else f_pack s (nat (q + 150)) (sig - 2 ^ 23))"

definition f_encode :: "bool \<Rightarrow> nat \<Rightarrow> int \<Rightarrow> float32" where
  "f_encode s sig q = (if sig = 2 ^ 24 then f_finite s (2 ^ 23) (q + 1) else f_finite s sig q)"

definition f_round :: "bool \<Rightarrow> nat \<Rightarrow> int \<Rightarrow> float32" where
  "f_round s m e = f_encode s (f_scale m e (f_quantum m e)) (f_quantum m e)"

text \<open>
  The arithmetic: special values first, then the exact result rounded once. \<open>f_sum\<close>
  is the exact sum in units of the smaller of the two weights. The quotient of \<open>fdiv\<close>
  is carried to 64 more bits, and a last bit records a non-zero remainder.
\<close>

definition f_sum :: "float32 \<Rightarrow> float32 \<Rightarrow> int" where
  "f_sum a b =
     f_int a * 2 ^ nat (f_pow a - min (f_pow a) (f_pow b)) +
     f_int b * 2 ^ nat (f_pow b - min (f_pow a) (f_pow b))"

definition fadd :: "float32 \<Rightarrow> float32 \<Rightarrow> float32" where
  "fadd a b =
     (if is_nan a \<or> is_nan b then f_nan
      else if is_inf a then (if is_inf b \<and> f_sign a \<noteq> f_sign b then f_nan else a)
      else if is_inf b then b
      else if is_zero a then (if is_zero b then (if f_sign a \<and> f_sign b then a else f_pack False 0 0) else b)
      else if is_zero b then a
      else if f_sum a b = 0 then f_pack False 0 0
      else f_round (f_sum a b < 0) (nat \<bar>f_sum a b\<bar>) (min (f_pow a) (f_pow b)))"

definition fmul :: "float32 \<Rightarrow> float32 \<Rightarrow> float32" where
  "fmul a b =
     (if is_nan a \<or> is_nan b then f_nan
      else if is_inf a \<or> is_inf b
        then (if is_zero a \<or> is_zero b then f_nan else f_pack (f_sign a \<noteq> f_sign b) 255 0)
      else if is_zero a \<or> is_zero b then f_pack (f_sign a \<noteq> f_sign b) 0 0
      else f_round (f_sign a \<noteq> f_sign b) (f_sig a * f_sig b) (f_pow a + f_pow b))"

definition fdiv :: "float32 \<Rightarrow> float32 \<Rightarrow> float32" where
  "fdiv a b =
     (if is_nan a \<or> is_nan b then f_nan
      else if is_inf a then (if is_inf b then f_nan else f_pack (f_sign a \<noteq> f_sign b) 255 0)
      else if is_inf b then f_pack (f_sign a \<noteq> f_sign b) 0 0
      else if is_zero b then (if is_zero a then f_nan else f_pack (f_sign a \<noteq> f_sign b) 255 0)
      else if is_zero a then f_pack (f_sign a \<noteq> f_sign b) 0 0
      else f_round (f_sign a \<noteq> f_sign b)
             (2 * (f_sig a * 2 ^ 64 div f_sig b) + (if f_sig a * 2 ^ 64 mod f_sig b = 0 then 0 else 1))
             (f_pow a - f_pow b - 65))"

text \<open>
  The comparisons: false whenever an operand is NaN, otherwise the order of the values,
  which is the order of the sign-magnitude integers \<open>f_key\<close> (both zeros have key 0).
\<close>

definition f_key :: "float32 \<Rightarrow> int" where
  "f_key w = (if f_sign w then - int (unat w mod 2 ^ 31) else int (unat w mod 2 ^ 31))"

definition flt :: "float32 \<Rightarrow> float32 \<Rightarrow> bool" where
  "flt a b = (\<not> is_nan a \<and> \<not> is_nan b \<and> f_key a < f_key b)"

definition fgt :: "float32 \<Rightarrow> float32 \<Rightarrow> bool" where
  "fgt a b = flt b a"

definition fle :: "float32 \<Rightarrow> float32 \<Rightarrow> bool" where
  "fle a b = (\<not> is_nan a \<and> \<not> is_nan b \<and> f_key a \<le> f_key b)"

text \<open>\<open>std::max(a, b)\<close> is \<open>(a < b) ? b : a\<close>.\<close>

definition fmax :: "float32 \<Rightarrow> float32 \<Rightarrow> float32" where
  "fmax a b = (if flt a b then b else a)"

text \<open>The literals \<open>0.0f\<close>, \<open>1.0f\<close> and \<open>0.5f\<close>.\<close>

definition f_zero :: float32 where
  "f_zero = 0x00000000"

definition f_one :: float32 where
  "f_one = 0x3F800000"

definition f_half :: float32 where
  "f_half = 0x3F000000"

section \<open>Error budget (class ErrorBudgetSystem)\<close>

text \<open>
  \<open>enum class ErrorType\<close>; as for the memory domains, \<open>Count\<close> is the length of the
  table and the model keeps the five slots.
\<close>

datatype ErrorType = Spatial | Temporal | Shading | Reflection | Volumetric

definition ErrorType_slots :: "ErrorType list" where
  "ErrorType_slots = [Spatial, Temporal, Shading, Reflection, Volumetric]"

record ErrorBudget =
  Current :: float32
  Limit :: float32

record PerceptualState =
  CameraVelocity :: float32
  FocusDepth :: float32
  Luminance :: float32

text \<open>The member \<open>Budgets\<close> of the class; the name is taken by the memory ledger's.\<close>

record ErrorBudgetSystem =
  ErrorBudgets :: "ErrorType \<Rightarrow> ErrorBudget"

text \<open>\<open>BaseLimits\<close>: the floats nearest to 1.0, 0.8, 0.6, 0.5 and 0.7.\<close>

fun BaseLimits :: "ErrorType \<Rightarrow> float32" where
  "BaseLimits Spatial = 0x3F800000"
| "BaseLimits Temporal = 0x3F4CCCCD"
| "BaseLimits Shading = 0x3F19999A"
| "BaseLimits Reflection = 0x3F000000"
| "BaseLimits Volumetric = 0x3F333333"

text \<open>One round of the loop of \<open>Reset\<close>: the two assignments to slot \<open>i\<close>.\<close>

definition reset_slot :: "ErrorType \<Rightarrow> ErrorBudgetSystem \<Rightarrow> ErrorBudgetSystem" where
  "reset_slot i s =
     s\<lparr>ErrorBudgets := (ErrorBudgets s)(i := (ErrorBudgets s i)\<lparr>Current := f_zero, Limit := BaseLimits i\<rparr>)\<rparr>"

definition ErrorReset :: "ErrorBudgetSystem \<Rightarrow> ErrorBudgetSystem" where
  "ErrorReset s = fold reset_slot ErrorType_slots s"

text \<open>The constructor runs \<open>Reset\<close> on storage of indeterminate content.\<close>

definition ErrorBudgetSystem_ctor :: "ErrorBudgetSystem \<Rightarrow> ErrorBudgetSystem" where
  "ErrorBudgetSystem_ctor raw = ErrorReset raw"

text \<open>One assignment \<open>Budgets[t].Limit = v\<close>.\<close>

definition set_limit :: "ErrorType \<Rightarrow> float32 \<Rightarrow> ErrorBudgetSystem \<Rightarrow> ErrorBudgetSystem" where
  "set_limit t v s = s\<lparr>ErrorBudgets := (ErrorBudgets s)(t := (ErrorBudgets s t)\<lparr>Limit := v\<rparr>)\<rparr>"

text \<open>\<open>AdaptToPerception\<close>: Temporal, then Spatial, then Reflection.\<close>

definition AdaptToPerception :: "PerceptualState \<Rightarrow> ErrorBudgetSystem \<Rightarrow> ErrorBudgetSystem" where
  "AdaptToPerception p s =
     (let s1 = set_limit Temporal (fmul (BaseLimits Temporal) (fadd f_one (CameraVelocity p))) s;
          s2 = set_limit Spatial (fmul (BaseLimits Spatial) (fadd f_one (fmul (Luminance p) f_half))) s1
      in set_limit Reflection (fmul (BaseLimits Reflection) (fadd f_one (FocusDepth p))) s2)"

definition ErrorRequest ::
  "ErrorType \<Rightarrow> float32 \<Rightarrow> ErrorBudgetSystem \<Rightarrow> bool \<times> ErrorBudgetSystem" where
  "ErrorRequest type amount s =
     (let B = ErrorBudgets s type
      in if fgt (fadd (Current B) amount) (Limit B) then (False, s)
         else (True, s\<lparr>ErrorBudgets := (ErrorBudgets s)(type := B\<lparr>Current := fadd (Current B) amount\<rparr>)\<rparr>))"

definition GetUsage :: "ErrorBudgetSystem \<Rightarrow> ErrorType \<Rightarrow> float32" where
  "GetUsage s type = fdiv (Current (ErrorBudgets s type)) (Limit (ErrorBudgets s type))"

text \<open>\<open>Saturation\<close>: \<open>maxSat\<close> starts at \<open>0.0f\<close> and the loop folds \<open>std::max\<close> over the slots.\<close>

definition Saturation :: "ErrorBudgetSystem \<Rightarrow> float32" where
  "Saturation s =
     fold (\<lambda>i maxSat. fmax maxSat (fdiv (Current (ErrorBudgets s i)) (Limit (ErrorBudgets s i))))
       ErrorType_slots f_zero"

inductive err_reachable :: "ErrorBudgetSystem \<Rightarrow> bool" where
  er_ctor: "err_reachable (ErrorBudgetSystem_ctor raw)"
| er_Reset: "err_reachable s \<Longrightarrow> err_reachable (ErrorReset s)"
| er_Adapt: "err_reachable s \<Longrightarrow> err_reachable (AdaptToPerception p s)"
| er_Request: "err_reachable s \<Longrightarrow> err_reachable (snd (ErrorRequest t a s))"

section \<open>Auxiliary definitions for the statements\<close>

text \<open>The shares of \<open>Initialize\<close>, in percent.\<close>
fun percentage :: "FrameMemoryDomain \<Rightarrow> nat" where
  "percentage Geometry = 30"
| "percentage Textures = 25"
| "percentage Animation = 10"
| "percentage Particles = 8"
| "percentage Physics = 8"
| "percentage AI = 7"
| "percentage Audio = 6"
| "percentage UI = 6"

text \<open>
  The bound of a ledger, over all its slots: \<open>UsedBytes \<le> MaxBytes\<close> for the memory
  ledger; \<open>Current <= Limit\<close> for the error ledger, and the weaker "not
  \<open>Current > Limit\<close>", which differ when one of the two floats is NaN.
\<close>
definition mem_within :: "FrameMemoryBudgetSystem \<Rightarrow> bool" where
  "mem_within s = list_all (\<lambda>d. UsedBytes (Budgets s d) \<le> MaxBytes (Budgets s d)) FrameMemoryDomain_slots"

definition err_within :: "ErrorBudgetSystem \<Rightarrow> bool" where
  "err_within e = list_all (\<lambda>t. fle (Current (ErrorBudgets e t)) (Limit (ErrorBudgets e t))) ErrorType_slots"

definition err_not_over :: "ErrorBudgetSystem \<Rightarrow> bool" where
  "err_not_over e = list_all (\<lambda>t. \<not> fgt (Current (ErrorBudgets e t)) (Limit (ErrorBudgets e t))) ErrorType_slots"

text \<open>A finite float: neither NaN nor an infinity.\<close>

definition is_finite :: "float32 \<Rightarrow> bool" where
  "is_finite w = (f_exp w \<noteq> 255)"

text \<open>A sequence of \<open>Request\<close> calls, in call order, with the verdicts dropped.\<close>

fun Requests :: "(FrameMemoryDomain \<times> uint64) list \<Rightarrow> FrameMemoryBudgetSystem \<Rightarrow> FrameMemoryBudgetSystem" where
  "Requests [] s = s"
| "Requests ((d, b) # cs) s = Requests cs (snd (Request d b s))"

fun ErrorRequests :: "(ErrorType \<times> float32) list \<Rightarrow> ErrorBudgetSystem \<Rightarrow> ErrorBudgetSystem" where
  "ErrorRequests [] e = e"
| "ErrorRequests ((t, a) # cs) e = ErrorRequests cs (snd (ErrorRequest t a e))"

text \<open>
  Concrete inputs. \<open>raw_mem\<close> and \<open>raw_err\<close> are storage with arbitrary content, for
  the constructors to run on; \<open>frame_start\<close> is a memory ledger initialised with
  100 000 000 bytes and \<open>err_start\<close> a freshly constructed error ledger.
\<close>

definition raw_mem :: FrameMemoryBudgetSystem where
  "raw_mem = \<lparr>Budgets = (\<lambda>d. \<lparr>MaxBytes = 0xDEADBEEF, UsedBytes = 7\<rparr>), TotalBudget = 5\<rparr>"

definition raw_err :: ErrorBudgetSystem where
  "raw_err = \<lparr>ErrorBudgets = (\<lambda>t. \<lparr>Current = 0x7FC00000, Limit = 0xBF800000\<rparr>)\<rparr>"

definition frame_start :: FrameMemoryBudgetSystem where
  "frame_start = Initialize 100000000 (FrameMemoryBudgetSystem_ctor raw_mem)"

definition err_start :: ErrorBudgetSystem where
  "err_start = ErrorBudgetSystem_ctor raw_err"

text \<open>
  The literal \<open>-1.0f\<close>, and two perceptual states: a camera moving at 0.5, and one whose
  velocity is \<open>-1.0\<close>.
\<close>

definition f_minus_one :: float32 where
  "f_minus_one = 0xBF800000"

definition camera_moving :: PerceptualState where
  "camera_moving = \<lparr>CameraVelocity = f_half, FocusDepth = f_zero, Luminance = f_zero\<rparr>"

definition camera_reversing :: PerceptualState where
  "camera_reversing = \<lparr>CameraVelocity = f_minus_one, FocusDepth = f_zero, Luminance = f_zero\<rparr>"

text \<open>One request per category, each for minus the category's base limit.\<close>

definition all_negative :: "(ErrorType \<times> float32) list" where
  "all_negative = [(Spatial, 0xBF800000), (Temporal, 0xBF4CCCCD), (Shading, 0xBF19999A),
                   (Reflection, 0xBF000000), (Volumetric, 0xBF333333)]"

section \<open>Basic facts: the memory ledger\<close>

lemma Request_fst:
  "fst (Request d b s) = (UsedBytes (Budgets s d) + b \<le> MaxBytes (Budgets s d))"
  by (auto simp add: Request_def Let_def)

lemma Request_snd:
  "snd (Request d b s) =
     (if UsedBytes (Budgets s d) + b \<le> MaxBytes (Budgets s d)
      then s\<lparr>Budgets := (Budgets s)(d := (Budgets s d)\<lparr>UsedBytes := UsedBytes (Budgets s d) + b\<rparr>)\<rparr>
      else s)"
  by (auto simp add: Request_def Let_def)

lemma unat_add64: "unat ((x::uint64) + y) = (unat x + unat y) mod 2 ^ 64"
  by (simp add: unat_word_ariths)

lemma BeginFrame_Budgets: "Budgets (BeginFrame s) d = (Budgets s d)\<lparr>UsedBytes := 0\<rparr>"
  by (cases d) (simp_all add: BeginFrame_def FrameMemoryDomain_slots_def clear_used_def)

lemma BeginFrame_TotalBudget: "TotalBudget (BeginFrame s) = TotalBudget s"
  by (simp add: BeginFrame_def FrameMemoryDomain_slots_def clear_used_def)

lemma BeginFrame_eq: "BeginFrame s = s\<lparr>Budgets := (\<lambda>d. (Budgets s d)\<lparr>UsedBytes := 0\<rparr>)\<rparr>"
proof -
  have "Budgets (BeginFrame s) = (\<lambda>d. (Budgets s d)\<lparr>UsedBytes := 0\<rparr>)"
    by (rule ext) (rule BeginFrame_Budgets)
  moreover have "BeginFrame s = s\<lparr>Budgets := Budgets (BeginFrame s)\<rparr>"
    by (simp add: BeginFrame_def FrameMemoryDomain_slots_def clear_used_def)
  ultimately show ?thesis by simp
qed

lemma Initialize_Budgets:
  "Budgets (Initialize t s) d = \<lparr>MaxBytes = t * of_nat (percentage d) div 100, UsedBytes = 0\<rparr>"
  by (cases d) (simp_all add: Initialize_def Let_def set_budget_def)

lemma Initialize_TotalBudget: "TotalBudget (Initialize t s) = t"
  by (simp add: Initialize_def Let_def set_budget_def)

lemma unat_share:
  assumes "unat (t::uint64) * 30 < 2 ^ 64" and "p \<le> 30"
  shows "unat (t * of_nat p div 100) = unat t * p div 100"
proof -
  have lt: "unat t * p < 2 ^ 64"
    using assms by (meson le_less_trans mult_le_mono2)
  have p: "unat (of_nat p :: uint64) = p"
    using assms(2) by (simp add: unat_of_nat)
  have "unat (t * of_nat p) = unat t * p"
    using lt p by (simp add: unat_word_ariths)
  then show ?thesis by (simp add: unat_div)
qed

lemma share_sum:
  fixes n :: nat
  shows "n * 30 div 100 + n * 10 div 100 + n * 25 div 100 + n * 8 div 100 + n * 7 div 100 + n * 6 div 100 + n * 8 div 100 + n * 6 div 100 \<le> n"
    and "n \<le> n * 30 div 100 + n * 10 div 100 + n * 25 div 100 + n * 8 div 100 + n * 7 div 100 + n * 6 div 100 + n * 8 div 100 + n * 6 div 100 + 7"
  by linarith+

lemma slots_all: "set FrameMemoryDomain_slots = UNIV"
proof -
  have "d \<in> set FrameMemoryDomain_slots" for d
    by (cases d) (simp_all add: FrameMemoryDomain_slots_def)
  then show ?thesis by blast
qed

lemma mem_within_iff: "mem_within s \<longleftrightarrow> (\<forall>d. UsedBytes (Budgets s d) \<le> MaxBytes (Budgets s d))"
  by (simp add: mem_within_def list_all_iff slots_all)

lemma Request_mem_within: "mem_within s \<Longrightarrow> mem_within (snd (Request d b s))"
  by (simp add: mem_within_iff Request_snd)

lemma Requests_mem_within: "mem_within s \<Longrightarrow> mem_within (Requests cs s)"
proof (induction cs arbitrary: s)
  case Nil
  then show ?case by simp
next
  case (Cons c cs)
  obtain d b where c: "c = (d, b)" by (cases c)
  from Cons.prems have "mem_within (snd (Request d b s))" by (rule Request_mem_within)
  then show ?case using Cons.IH c by simp
qed

lemma ctor_mem_Budgets:
  "Budgets (FrameMemoryBudgetSystem_ctor raw) d = \<lparr>MaxBytes = 0, UsedBytes = 0\<rparr>"
  by (simp add: FrameMemoryBudgetSystem_ctor_def Reset_def)

lemma mem_reachable_within: "mem_reachable s \<Longrightarrow> mem_within s"
proof (induction rule: mem_reachable.induct)
  case (mr_ctor raw)
  show ?case by (simp add: mem_within_iff ctor_mem_Budgets)
next
  case (mr_Initialize s t)
  show ?case by (simp add: mem_within_iff Initialize_Budgets)
next
  case (mr_BeginFrame s)
  show ?case by (simp add: mem_within_iff BeginFrame_Budgets)
next
  case (mr_Request s d b)
  from mr_Request.IH show ?case by (rule Request_mem_within)
next
  case (mr_Reset s)
  show ?case by (simp add: mem_within_iff Reset_def)
qed

lemma frame_start_Budgets:
  "Budgets frame_start d = \<lparr>MaxBytes = 100000000 * of_nat (percentage d) div 100, UsedBytes = 0\<rparr>"
  by (simp add: frame_start_def Initialize_Budgets)

lemma mem_within_frame_start: "mem_within frame_start"
  by (simp add: mem_within_iff frame_start_Budgets)

lemma two_bytes_used:
  "Budgets (snd (Request Geometry 2 (Initialize 100 (FrameMemoryBudgetSystem_ctor raw_mem)))) Geometry
     = \<lparr>MaxBytes = 30, UsedBytes = 2\<rparr>"
  by (simp add: Request_snd Initialize_Budgets)

section \<open>Basic facts: floats\<close>

lemmas f_defs = f_sign_def f_exp_def f_man_def f_pack_def is_nan_def is_inf_def is_zero_def f_nan_def
  f_sig_def f_pow_def f_int_def f_round_def rne_def f_quantum_def f_scale_def f_finite_def
  f_encode_def f_sum_def fadd_def fmul_def fdiv_def f_key_def flt_def fgt_def fle_def fmax_def
  f_zero_def f_one_def f_half_def bitlen.simps

text \<open>
  Some known values: \<open>0.1f + 0.2f = 0.3f\<close>, \<open>1.0f / 3.0f\<close>, a tie rounded to even in
  both directions, overflow to infinity, a subnormal product, and the invalid operations.
\<close>

lemma float_samples:
  "fadd 0x3DCCCCCD 0x3E4CCCCD = 0x3E99999A"
  "fdiv 0x3F800000 0x40400000 = 0x3EAAAAAB"
  "fadd 0x3F800000 0x33800000 = 0x3F800000"
  "fadd 0x3F800001 0x33800000 = 0x3F800002"
  "fadd 0x7F7FFFFF 0x7F7FFFFF = 0x7F800000"
  "fmul 0x00000003 0x3F000000 = 0x00000002"
  "is_nan (fadd 0x7F800000 0xFF800000)"
  "is_nan (fmul 0x7F800000 0x00000000)"
  "is_nan (fdiv 0x00000000 0x80000000)"
  by (simp_all add: f_defs)

lemma not_fgt_fle: "\<not> is_nan a \<Longrightarrow> \<not> is_nan b \<Longrightarrow> \<not> fgt a b \<longleftrightarrow> fle a b"
  by (auto simp: fgt_def flt_def fle_def)

lemma fle_not_fgt: "fle a b \<Longrightarrow> \<not> fgt a b"
  by (auto simp: fgt_def flt_def fle_def)

lemma f_key_zero: "is_zero w \<Longrightarrow> f_key w = 0"
proof -
  assume z: "is_zero w"
  have "unat w mod 2 ^ 31 = unat w mod 2 ^ 23 + 2 ^ 23 * ((unat w div 2 ^ 23) mod 256)"
    using mod_mult2_eq [of "unat w" "2 ^ 23" 256] by simp
  with z show ?thesis by (simp add: is_zero_def f_exp_def f_man_def f_key_def)
qed

lemma is_zero_not_nan: "is_zero w \<Longrightarrow> \<not> is_nan w \<and> \<not> is_inf w"
  by (simp add: is_zero_def is_nan_def is_inf_def)

lemma Max_absorb:
  fixes a b :: int
  assumes "finite A" and "a \<le> b"
  shows "Max (insert a (insert b A)) = Max (insert b A)"
proof -
  have "b \<le> Max (insert b A)" using assms(1) by simp
  with assms(2) have "a \<le> Max (insert b A)" by linarith
  moreover have "Max (insert a (insert b A)) = max a (Max (insert b A))"
    using assms(1) by (intro Max_insert) auto
  ultimately show ?thesis by (simp add: max_def)
qed

lemma fmax_fold_key:
  "\<not> is_nan m \<Longrightarrow>
     \<not> is_nan (fold (\<lambda>r m. fmax m r) rs m) \<and>
     f_key (fold (\<lambda>r m. fmax m r) rs m) = Max (set (f_key m # map f_key (filter (\<lambda>r. \<not> is_nan r) rs))) \<and>
     fold (\<lambda>r m. fmax m r) rs m \<in> set (m # rs)"
proof (induction rs arbitrary: m)
  case Nil
  then show ?case by simp
next
  case (Cons r rs)
  let ?K = "set (map f_key (filter (\<lambda>r. \<not> is_nan r) rs))"
  have fin: "finite ?K" by simp
  show ?case
  proof (cases "flt m r")
    case True
    then have nn: "\<not> is_nan r" and lt: "f_key m \<le> f_key r" by (auto simp: flt_def)
    have "Max (insert (f_key m) (insert (f_key r) ?K)) = Max (insert (f_key r) ?K)"
      by (rule Max_absorb [OF fin lt])
    then have "Max (set (f_key r # map f_key (filter (\<lambda>r. \<not> is_nan r) rs)))
        = Max (set (f_key m # map f_key (filter (\<lambda>r. \<not> is_nan r) (r # rs))))"
      using nn by simp
    with Cons.IH [OF nn] True show ?thesis by (auto simp: fmax_def)
  next
    case False
    have "Max (set (f_key m # map f_key (filter (\<lambda>r. \<not> is_nan r) rs)))
        = Max (set (f_key m # map f_key (filter (\<lambda>r. \<not> is_nan r) (r # rs))))"
    proof (cases "is_nan r")
      case True then show ?thesis by simp
    next
      case nn: False
      with False Cons.prems have le: "f_key r \<le> f_key m" by (auto simp: flt_def)
      have "Max (insert (f_key r) (insert (f_key m) ?K)) = Max (insert (f_key m) ?K)"
        by (rule Max_absorb [OF fin le])
      moreover have "insert (f_key m) (insert (f_key r) ?K) = insert (f_key r) (insert (f_key m) ?K)"
        by auto
      ultimately show ?thesis using nn by simp
    qed
    with Cons.IH [OF Cons.prems] False show ?thesis by (auto simp: fmax_def)
  qed
qed

lemma f_nan_is_nan: "is_nan f_nan"
  by (simp add: f_defs)

lemma f_zero_facts: "is_zero f_zero" "\<not> is_nan f_zero" "f_key f_zero = 0"
  by (simp_all add: f_defs)

lemma BaseLimits_fle: "fle f_zero (BaseLimits t)"
  by (cases t) (simp_all add: f_defs)

lemma BaseLimits_nonzero: "\<not> is_zero (BaseLimits t)"
  by (cases t) (simp_all add: f_defs)

lemma f_zero_plus_half: "fadd f_zero f_half = f_half"
  by (simp add: f_defs)

lemma half_not_fgt: "\<not> fgt f_half (BaseLimits Temporal)" "\<not> is_nan f_half" "fgt f_half f_zero"
  by (simp_all add: f_defs)

lemma adapt_values:
  "fmul (BaseLimits Temporal) (fadd f_one f_half) = 0x3F99999A"
  "fmul (BaseLimits Spatial) (fadd f_one (fmul f_zero f_half)) = 0x3F800000"
  "fmul (BaseLimits Reflection) (fadd f_one f_zero) = 0x3F000000"
  by (simp_all add: f_defs)

lemma reversing_limit:
  "fmul (BaseLimits Temporal) (fadd f_one f_minus_one) = f_zero"
  by (simp add: f_defs f_minus_one_def)

lemma negative_consumed_values:
  "fadd f_zero f_minus_one = f_minus_one"
  "\<not> fgt f_minus_one f_zero"
  "fadd f_minus_one f_half = 0xBF000000"
  "\<not> fgt 0xBF000000 f_zero"
  by (simp_all add: f_defs f_minus_one_def)

text \<open>
  Rounding never yields a NaN, and the rounded value of a positive number is positive: so
  the sum of a float that is not NaN and a finite float is not NaN, and the sum of a float
  \<open>>= 0\<close> and a float \<open>> 0\<close> is \<open>> 0\<close>.
\<close>

lemma bitlen_pos: "0 < n \<Longrightarrow> 0 < bitlen n"
  by (subst bitlen.simps) simp

lemma bitlen_upper: "n < 2 ^ bitlen n"
proof (induction n rule: bitlen.induct)
  case (1 n)
  show ?case
  proof (cases "n = 0")
    case True
    then show ?thesis by simp
  next
    case False
    with 1 have "n div 2 < 2 ^ bitlen (n div 2)" by simp
    then have "n < 2 * 2 ^ bitlen (n div 2)" by linarith
    moreover have "bitlen n = Suc (bitlen (n div 2))"
      using False by (subst bitlen.simps) simp
    ultimately show ?thesis by simp
  qed
qed

lemma bitlen_lower: "0 < n \<Longrightarrow> 2 ^ (bitlen n - 1) \<le> n"
proof (induction n rule: bitlen.induct)
  case (1 n)
  from 1(2) have b: "bitlen n = Suc (bitlen (n div 2))"
    by (subst bitlen.simps) simp
  show ?case
  proof (cases "n div 2 = 0")
    case True
    then have "bitlen (n div 2) = 0" by (subst bitlen.simps) simp
    with b 1(2) show ?thesis by simp
  next
    case False
    with 1 have ih: "2 ^ (bitlen (n div 2) - 1) \<le> n div 2" by simp
    from False have "0 < bitlen (n div 2)" by (simp add: bitlen_pos)
    then have "(2::nat) ^ bitlen (n div 2) = 2 * 2 ^ (bitlen (n div 2) - 1)"
      by (cases "bitlen (n div 2)") simp_all
    with ih have "(2::nat) ^ bitlen (n div 2) \<le> n" by linarith
    with b show ?thesis by simp
  qed
qed

lemma unat_f_pack:
  assumes "ex \<le> 255" and "man < 2 ^ 23"
  shows "unat (f_pack s ex man) = (if s then 2 ^ 31 else 0) + ex * 2 ^ 23 + man"
proof -
  have "(if s then 2 ^ 31 else 0) + ex * 2 ^ 23 + man < (2::nat) ^ 32"
    using assms by (simp split: if_splits)
  then show ?thesis
    by (simp add: f_pack_def unat_of_nat del: of_nat_add of_nat_mult)
qed

lemma pack_arith_gen:
  fixes ex man K c :: nat
  assumes "ex \<le> 255" and "man < K"
  shows "((c * 256 + ex) * K + man) div K mod 256 = ex"
    and "((c * 256 + ex) * K + man) mod K = man"
    and "((c * 256 + ex) * K + man) mod (K * 256) = ex * K + man"
proof -
  have K: "0 < K" using assms(2) by simp
  have d: "((c * 256 + ex) * K + man) div K = c * 256 + ex"
    using assms(2) K by simp
  show 1: "((c * 256 + ex) * K + man) div K mod 256 = ex"
    unfolding d using assms(1) by simp
  show 2: "((c * 256 + ex) * K + man) mod K = man"
    using assms(2) by simp
  show "((c * 256 + ex) * K + man) mod (K * 256) = ex * K + man"
    unfolding mod_mult2_eq 1 2 by simp
qed

lemma f_pack_fields:
  assumes "ex \<le> 255" and "man < 2 ^ 23"
  shows "f_exp (f_pack s ex man) = ex" and "f_man (f_pack s ex man) = man"
    and "f_sign (f_pack s ex man) = s"
    and "unat (f_pack s ex man) mod 2 ^ 31 = ex * 2 ^ 23 + man"
proof -
  have m: "man < 8388608" using assms(2) by simp
  have u: "unat (f_pack s ex man) = ((if s then 1 else 0) * 256 + ex) * 8388608 + man"
    using assms by (simp add: unat_f_pack)
  show "f_exp (f_pack s ex man) = ex"
    unfolding f_exp_def u using pack_arith_gen(1) [OF assms(1) m] by simp
  show "f_man (f_pack s ex man) = man"
    unfolding f_man_def u using pack_arith_gen(2) [OF assms(1) m] by simp
  show "f_sign (f_pack s ex man) = s"
    using assms by (simp add: f_sign_def unat_f_pack)
  show "unat (f_pack s ex man) mod 2 ^ 31 = ex * 2 ^ 23 + man"
    unfolding u using pack_arith_gen(3) [OF assms(1) m, of "if s then 1 else 0"] by simp
qed

lemma rne_bounds: "m div 2 ^ d \<le> rne m d" "rne m d \<le> m div 2 ^ d + 1"
  by (simp_all add: rne_def)

lemma f_quantum_ge: "- 149 \<le> f_quantum m e" "int (bitlen m) - 24 + e \<le> f_quantum m e"
  by (simp_all add: f_quantum_def)

lemma f_scale_le: "f_scale m e (f_quantum m e) \<le> 2 ^ 24"
proof (cases "f_quantum m e \<le> e")
  case True
  let ?k = "nat (e - f_quantum m e)"
  from True f_quantum_ge(2) [of m e] have "bitlen m + ?k \<le> 24" by linarith
  then have "(2::nat) ^ (bitlen m + ?k) \<le> 2 ^ 24"
    by (intro power_increasing) simp_all
  then have "(2::nat) ^ bitlen m * 2 ^ ?k \<le> 2 ^ 24" by (simp only: power_add)
  moreover have "m * 2 ^ ?k < 2 ^ bitlen m * 2 ^ ?k"
    using bitlen_upper [of m] by simp
  ultimately have "m * 2 ^ ?k < 2 ^ 24" by (rule order.strict_trans2 [rotated])
  with True show ?thesis by (simp add: f_scale_def)
next
  case False
  let ?d = "nat (f_quantum m e - e)"
  from False f_quantum_ge(2) [of m e] have "bitlen m \<le> 24 + ?d" by linarith
  then have "(2::nat) ^ bitlen m \<le> 2 ^ (24 + ?d)"
    by (intro power_increasing) simp_all
  with bitlen_upper [of m] have "m < 2 ^ 24 * 2 ^ ?d" by (simp add: power_add)
  then have "m div 2 ^ ?d < 2 ^ 24" by (rule less_mult_imp_div_less)
  with rne_bounds(2) [of m ?d] have "rne m ?d \<le> 2 ^ 24" by linarith
  with False show ?thesis by (simp add: f_scale_def)
qed

lemma f_scale_pos:
  assumes "0 < m" and "- 149 \<le> e"
  shows "0 < f_scale m e (f_quantum m e)"
proof (cases "f_quantum m e \<le> e")
  case True
  with assms(1) show ?thesis by (simp add: f_scale_def)
next
  case False
  let ?d = "nat (f_quantum m e - e)"
  from False assms(2) have q: "f_quantum m e = int (bitlen m) - 24 + e"
    by (simp add: f_quantum_def max_def split: if_splits)
  then have d: "bitlen m - 1 = 23 + ?d" using False by linarith
  have "(2::nat) ^ 23 * 2 ^ ?d \<le> m"
    using bitlen_lower [OF assms(1)] unfolding d by (simp add: power_add)
  then have "2 ^ 23 \<le> m div 2 ^ ?d"
    by (simp add: less_eq_div_iff_mult_less_eq)
  moreover have "(0::nat) < 2 ^ 23" by simp
  ultimately have "0 < m div 2 ^ ?d" by linarith
  with rne_bounds(1) [of m ?d] have "0 < rne m ?d" by linarith
  with False show ?thesis by (simp add: f_scale_def)
qed

lemma is_nan_f_pack:
  "ex \<le> 255 \<Longrightarrow> man < 2 ^ 23 \<Longrightarrow> is_nan (f_pack s ex man) \<longleftrightarrow> ex = 255 \<and> man \<noteq> 0"
  by (simp add: is_nan_def f_pack_fields)

lemma f_key_f_pack:
  "ex \<le> 255 \<Longrightarrow> man < 2 ^ 23 \<Longrightarrow> f_key (f_pack False ex man) = int (ex * 2 ^ 23 + man)"
  using f_pack_fields(3,4) [of ex man False] by (simp add: f_key_def)

lemma f_finite_not_nan:
  assumes "sig < 2 ^ 24"
  shows "\<not> is_nan (f_finite s sig q)"
proof -
  have "q \<le> 104 \<Longrightarrow> nat (q + 150) \<le> 255" by linarith
  moreover have "q \<le> 104 \<Longrightarrow> nat (q + 150) \<noteq> 255" by linarith
  moreover have "sig - 2 ^ 23 < 2 ^ 23" using assms by simp
  ultimately show ?thesis
    by (simp add: f_finite_def is_nan_f_pack)
qed

lemma f_finite_key:
  assumes "sig < 2 ^ 24" and "0 < sig" and "- 149 \<le> q"
  shows "0 < f_key (f_finite False sig q)"
proof -
  have a: "q \<le> 104 \<Longrightarrow> nat (q + 150) \<le> 255" by linarith
  have b: "0 < nat (q + 150)" using assms(3) by linarith
  have c: "sig - 2 ^ 23 < 2 ^ 23" using assms(1) by simp
  show ?thesis
    using assms(2) a b c by (simp add: f_finite_def f_key_f_pack)
qed

lemma f_round_not_nan: "\<not> is_nan (f_round s m e)"
proof -
  have "f_scale m e (f_quantum m e) \<noteq> 2 ^ 24 \<Longrightarrow> f_scale m e (f_quantum m e) < 2 ^ 24"
    using f_scale_le [of m e] by linarith
  then show ?thesis
    by (simp add: f_round_def f_encode_def f_finite_not_nan)
qed

lemma f_round_key:
  assumes "0 < m" and "- 149 \<le> e"
  shows "0 < f_key (f_round False m e)"
proof -
  have lt: "f_scale m e (f_quantum m e) \<noteq> 2 ^ 24 \<Longrightarrow> f_scale m e (f_quantum m e) < 2 ^ 24"
    using f_scale_le [of m e] by linarith
  have q: "- 149 \<le> f_quantum m e" "- 149 \<le> f_quantum m e + 1"
    using f_quantum_ge(1) [of m e] by simp_all
  show ?thesis
    using lt q f_scale_pos [OF assms]
    by (simp add: f_round_def f_encode_def f_finite_key)
qed

lemma f_pow_ge: "- 149 \<le> f_pow w"
  by (simp add: f_pow_def)

lemma is_zero_iff: "is_zero w \<longleftrightarrow> unat w mod 2 ^ 31 = 0"
proof -
  have "unat w mod 2 ^ 31 = unat w mod 2 ^ 23 + 2 ^ 23 * ((unat w div 2 ^ 23) mod 256)"
    using mod_mult2_eq [of "unat w" "2 ^ 23" 256] by simp
  then show ?thesis by (auto simp: is_zero_def f_exp_def f_man_def)
qed

lemma f_key_nonneg:
  assumes "0 \<le> f_key w" and "\<not> is_zero w"
  shows "\<not> f_sign w" and "0 < f_key w"
  using assms by (auto simp: f_key_def is_zero_iff split: if_splits)

lemma f_sig_pos: "\<not> is_zero w \<Longrightarrow> 0 < f_sig w"
  by (auto simp: is_zero_def f_sig_def)

lemma is_finite_iff: "is_finite w \<longleftrightarrow> \<not> is_nan w \<and> \<not> is_inf w"
  by (auto simp: is_finite_def is_nan_def is_inf_def)

lemma f_pos_zero_not_nan: "\<not> is_nan (f_pack False 0 0)"
  by (simp add: is_nan_f_pack)

lemma fadd_not_nan:
  assumes "\<not> is_nan a" and "is_finite b"
  shows "\<not> is_nan (fadd a b)"
  using assms by (simp add: fadd_def is_finite_iff f_round_not_nan f_pos_zero_not_nan)

lemma fadd_pos:
  assumes "fle f_zero c" and "fgt x f_zero"
  shows "\<not> is_nan (fadd c x) \<and> 0 < f_key (fadd c x)"
proof -
  from assms have c: "\<not> is_nan c" "0 \<le> f_key c" and x: "\<not> is_nan x" "0 < f_key x"
    by (simp_all add: fle_def fgt_def flt_def f_zero_facts)
  from x(2) have xz: "\<not> is_zero x" using f_key_zero by fastforce
  with x(2) have xs: "\<not> f_sign x" using f_key_nonneg(1) by simp
  show ?thesis
  proof (cases "is_zero c")
    case True
    with c x xz show ?thesis by (simp add: fadd_def is_zero_not_nan)
  next
    case False
    with c(2) have cs: "\<not> f_sign c" and ck: "0 < f_key c"
      using f_key_nonneg by simp_all
    have "0 < f_sum c x"
    proof -
      have "0 < f_int c" "0 < f_int x"
        using cs xs False xz by (simp_all add: f_int_def f_sig_pos)
      then show ?thesis by (simp add: f_sum_def add_pos_pos)
    qed
    then have "\<not> is_nan (f_round (f_sum c x < 0) (nat \<bar>f_sum c x\<bar>) (min (f_pow c) (f_pow x)))"
      "0 < f_key (f_round (f_sum c x < 0) (nat \<bar>f_sum c x\<bar>) (min (f_pow c) (f_pow x)))"
      using f_pow_ge [of c] f_pow_ge [of x] by (simp_all add: f_round_not_nan f_round_key)
    with c x xz cs xs ck False \<open>0 < f_sum c x\<close> show ?thesis
      by (simp add: fadd_def)
  qed
qed

lemma half_finite: "is_finite f_half"
  by (simp add: is_finite_def f_defs)

section \<open>Basic facts: the error ledger\<close>

lemma ErrorRequest_fst:
  "fst (ErrorRequest t a e) =
     (\<not> fgt (fadd (Current (ErrorBudgets e t)) a) (Limit (ErrorBudgets e t)))"
  by (simp add: ErrorRequest_def Let_def)

lemma ErrorRequest_snd:
  "snd (ErrorRequest t a e) =
     (if fgt (fadd (Current (ErrorBudgets e t)) a) (Limit (ErrorBudgets e t)) then e
      else e\<lparr>ErrorBudgets := (ErrorBudgets e)(t := (ErrorBudgets e t)\<lparr>Current := fadd (Current (ErrorBudgets e t)) a\<rparr>)\<rparr>)"
  by (simp add: ErrorRequest_def Let_def)

lemma ErrorReset_Budgets:
  "ErrorBudgets (ErrorReset e) t = \<lparr>Current = f_zero, Limit = BaseLimits t\<rparr>"
  by (cases t) (simp_all add: ErrorReset_def ErrorType_slots_def reset_slot_def)

lemma ErrorReset_eq:
  "ErrorReset e = \<lparr>ErrorBudgets = (\<lambda>t. \<lparr>Current = f_zero, Limit = BaseLimits t\<rparr>)\<rparr>"
proof -
  have "ErrorBudgets (ErrorReset e) = (\<lambda>t. \<lparr>Current = f_zero, Limit = BaseLimits t\<rparr>)"
    by (rule ext) (rule ErrorReset_Budgets)
  then show ?thesis by (cases "ErrorReset e") simp
qed

lemma Adapt_Current:
  "Current (ErrorBudgets (AdaptToPerception p e) t) = Current (ErrorBudgets e t)"
  by (simp add: AdaptToPerception_def Let_def set_limit_def)

lemma Adapt_Limit:
  "Limit (ErrorBudgets (AdaptToPerception p e) t) =
     (case t of
        Temporal \<Rightarrow> fmul (BaseLimits Temporal) (fadd f_one (CameraVelocity p))
      | Spatial \<Rightarrow> fmul (BaseLimits Spatial) (fadd f_one (fmul (Luminance p) f_half))
      | Reflection \<Rightarrow> fmul (BaseLimits Reflection) (fadd f_one (FocusDepth p))
      | _ \<Rightarrow> Limit (ErrorBudgets e t))"
  by (cases t) (simp_all add: AdaptToPerception_def Let_def set_limit_def)

lemma ErrorRequest_Limit:
  "Limit (ErrorBudgets (snd (ErrorRequest t a e)) u) = Limit (ErrorBudgets e u)"
  by (simp add: ErrorRequest_snd)

lemma err_reachable_pinned:
  "err_reachable e \<Longrightarrow>
     Limit (ErrorBudgets e Shading) = BaseLimits Shading \<and>
     Limit (ErrorBudgets e Volumetric) = BaseLimits Volumetric"
proof (induction rule: err_reachable.induct)
  case (er_ctor raw)
  show ?case by (simp add: ErrorBudgetSystem_ctor_def ErrorReset_Budgets)
next
  case (er_Reset s)
  show ?case by (simp add: ErrorReset_Budgets)
next
  case (er_Adapt s p)
  then show ?case by (simp add: Adapt_Limit)
next
  case (er_Request s t a)
  then show ?case by (simp add: ErrorRequest_Limit)
qed

lemma err_slots_all: "set ErrorType_slots = UNIV"
proof -
  have "t \<in> set ErrorType_slots" for t
    by (cases t) (simp_all add: ErrorType_slots_def)
  then show ?thesis by blast
qed

lemma err_within_iff:
  "err_within e \<longleftrightarrow> (\<forall>t. fle (Current (ErrorBudgets e t)) (Limit (ErrorBudgets e t)))"
  by (simp add: err_within_def list_all_iff err_slots_all)

lemma err_not_over_iff:
  "err_not_over e \<longleftrightarrow> (\<forall>t. \<not> fgt (Current (ErrorBudgets e t)) (Limit (ErrorBudgets e t)))"
  by (simp add: err_not_over_def list_all_iff err_slots_all)

lemma ErrorRequest_not_over: "err_not_over e \<Longrightarrow> err_not_over (snd (ErrorRequest t a e))"
  by (simp add: err_not_over_iff ErrorRequest_snd)

lemma ErrorRequests_not_over: "err_not_over e \<Longrightarrow> err_not_over (ErrorRequests cs e)"
proof (induction cs arbitrary: e)
  case Nil
  then show ?case by simp
next
  case (Cons c cs)
  obtain t a where c: "c = (t, a)" by (cases c)
  from Cons.prems have "err_not_over (snd (ErrorRequest t a e))" by (rule ErrorRequest_not_over)
  then show ?case using Cons.IH c by simp
qed

lemma err_within_not_over: "err_within e \<Longrightarrow> err_not_over e"
  by (simp add: err_within_iff err_not_over_iff fle_not_fgt)

lemma ctor_err_Budgets:
  "ErrorBudgets (ErrorBudgetSystem_ctor raw) t = \<lparr>Current = f_zero, Limit = BaseLimits t\<rparr>"
  by (simp add: ErrorBudgetSystem_ctor_def ErrorReset_Budgets)

lemma ctor_err_within: "err_within (ErrorBudgetSystem_ctor raw)"
  by (simp add: err_within_iff ctor_err_Budgets BaseLimits_fle)

lemma err_start_Budgets:
  "ErrorBudgets err_start t = \<lparr>Current = f_zero, Limit = BaseLimits t\<rparr>"
  by (simp add: err_start_def ctor_err_Budgets)

lemma reversing_Temporal:
  "ErrorBudgets (AdaptToPerception camera_reversing err_start) Temporal = \<lparr>Current = f_zero, Limit = f_zero\<rparr>"
proof -
  have "Limit (ErrorBudgets (AdaptToPerception camera_reversing err_start) Temporal) = f_zero"
    using reversing_limit by (simp add: Adapt_Limit camera_reversing_def)
  moreover have "Current (ErrorBudgets (AdaptToPerception camera_reversing err_start) Temporal) = f_zero"
    by (simp add: Adapt_Current err_start_Budgets)
  ultimately show ?thesis
    by (cases "ErrorBudgets (AdaptToPerception camera_reversing err_start) Temporal") simp
qed

lemma Saturation_fold:
  "Saturation e = fold (\<lambda>r m. fmax m r) (map (GetUsage e) ErrorType_slots) f_zero"
  by (simp add: Saturation_def GetUsage_def fold_map comp_def)

lemma scenario_B_state:
  "ErrorBudgets (snd (ErrorRequest Temporal f_one (AdaptToPerception camera_moving err_start))) t
     = \<lparr>Current = (if t = Temporal then f_one else f_zero),
        Limit = (case t of Temporal \<Rightarrow> 0x3F99999A | Spatial \<Rightarrow> 0x3F800000
                 | Reflection \<Rightarrow> 0x3F000000 | Shading \<Rightarrow> 0x3F19999A | Volumetric \<Rightarrow> 0x3F333333)\<rparr>"
proof -
  have a: "ErrorBudgets (AdaptToPerception camera_moving err_start) u
     = \<lparr>Current = f_zero,
        Limit = (case u of Temporal \<Rightarrow> 0x3F99999A | Spatial \<Rightarrow> 0x3F800000
                 | Reflection \<Rightarrow> 0x3F000000 | Shading \<Rightarrow> 0x3F19999A | Volumetric \<Rightarrow> 0x3F333333)\<rparr>" for u
  proof -
    have "Current (ErrorBudgets (AdaptToPerception camera_moving err_start) u) = f_zero"
      by (simp add: Adapt_Current err_start_Budgets)
    moreover have "Limit (ErrorBudgets (AdaptToPerception camera_moving err_start) u)
      = (case u of Temporal \<Rightarrow> 0x3F99999A | Spatial \<Rightarrow> 0x3F800000
                 | Reflection \<Rightarrow> 0x3F000000 | Shading \<Rightarrow> 0x3F19999A | Volumetric \<Rightarrow> 0x3F333333)"
      using adapt_values by (cases u) (simp_all add: Adapt_Limit camera_moving_def err_start_Budgets)
    ultimately show ?thesis
      by (cases "ErrorBudgets (AdaptToPerception camera_moving err_start) u") simp
  qed
  have s: "fadd f_zero f_one = f_one" "\<not> fgt f_one 0x3F99999A"
    by (simp_all add: f_defs)
  show ?thesis
    by (simp add: ErrorRequest_snd a s)
qed

lemma scenario_B_usage:
  "GetUsage (snd (ErrorRequest Temporal f_one (AdaptToPerception camera_moving err_start))) t
     = (if t = Temporal then 0x3F555555 else f_zero)"
proof -
  have "fdiv f_one 0x3F99999A = 0x3F555555" by (simp add: f_defs)
  moreover have "fdiv f_zero 0x3F800000 = f_zero" "fdiv f_zero 0x3F000000 = f_zero"
    "fdiv f_zero 0x3F19999A = f_zero" "fdiv f_zero 0x3F333333 = f_zero"
    by (simp_all add: f_defs)
  ultimately show ?thesis
    by (cases t) (simp_all add: GetUsage_def scenario_B_state)
qed

lemma all_negative_state:
  "ErrorBudgets (ErrorRequests all_negative err_start) t
     = \<lparr>Current = (case t of Spatial \<Rightarrow> 0xBF800000 | Temporal \<Rightarrow> 0xBF4CCCCD | Shading \<Rightarrow> 0xBF19999A
                    | Reflection \<Rightarrow> 0xBF000000 | Volumetric \<Rightarrow> 0xBF333333),
        Limit = BaseLimits t\<rparr>"
proof -
  have z: "fadd f_zero 0xBF800000 = 0xBF800000" "fadd f_zero 0xBF4CCCCD = 0xBF4CCCCD"
    "fadd f_zero 0xBF19999A = 0xBF19999A" "fadd f_zero 0xBF000000 = 0xBF000000"
    "fadd f_zero 0xBF333333 = 0xBF333333"
    "\<not> fgt 0xBF800000 0x3F800000" "\<not> fgt 0xBF4CCCCD 0x3F4CCCCD" "\<not> fgt 0xBF19999A 0x3F19999A"
    "\<not> fgt 0xBF000000 0x3F000000" "\<not> fgt 0xBF333333 0x3F333333"
    by (simp_all add: f_defs)
  show ?thesis
    by (cases t) (simp_all add: all_negative_def ErrorRequest_snd err_start_Budgets z)
qed

lemma ErrorRequest_within:
  assumes "err_within e" and "is_finite a"
  shows "err_within (snd (ErrorRequest t a e))"
proof -
  have "fle (Current (ErrorBudgets (snd (ErrorRequest t a e)) u))
            (Limit (ErrorBudgets (snd (ErrorRequest t a e)) u))" for u
  proof (cases "u = t \<and> \<not> fgt (fadd (Current (ErrorBudgets e t)) a) (Limit (ErrorBudgets e t))")
    case True
    from assms(1) have "fle (Current (ErrorBudgets e t)) (Limit (ErrorBudgets e t))"
      by (simp add: err_within_iff)
    then have n: "\<not> is_nan (Current (ErrorBudgets e t))" "\<not> is_nan (Limit (ErrorBudgets e t))"
      by (simp_all add: fle_def)
    from n(1) assms(2) have "\<not> is_nan (fadd (Current (ErrorBudgets e t)) a)"
      by (rule fadd_not_nan)
    with n(2) True have "fle (fadd (Current (ErrorBudgets e t)) a) (Limit (ErrorBudgets e t))"
      by (simp add: not_fgt_fle)
    with True show ?thesis by (simp add: ErrorRequest_snd)
  next
    case False
    with assms(1) show ?thesis by (auto simp: ErrorRequest_snd err_within_iff)
  qed
  then show ?thesis by (simp add: err_within_iff)
qed

lemma ErrorRequests_within:
  "err_within e \<Longrightarrow> list_all (\<lambda>c. is_finite (snd c)) es \<Longrightarrow> err_within (ErrorRequests es e)"
proof (induction es arbitrary: e)
  case Nil
  then show ?case by simp
next
  case (Cons c es)
  obtain t a where c: "c = (t, a)" by (cases c)
  with Cons.prems have "err_within (snd (ErrorRequest t a e))"
    by (simp add: ErrorRequest_within)
  with Cons.IH Cons.prems(2) c show ?case by simp
qed

lemma list_all_take: "list_all P xs \<Longrightarrow> list_all P (take n xs)"
  by (auto simp: list_all_iff dest: in_set_takeD)

lemma half_used_Temporal:
  "ErrorBudgets (AdaptToPerception camera_reversing (snd (ErrorRequest Temporal f_half err_start))) Temporal
     = \<lparr>Current = f_half, Limit = f_zero\<rparr>"
proof -
  let ?e = "snd (ErrorRequest Temporal f_half err_start)"
  have "Current (ErrorBudgets ?e Temporal) = f_half"
    using half_not_fgt(1) by (simp add: ErrorRequest_snd err_start_Budgets f_zero_plus_half)
  then have "Current (ErrorBudgets (AdaptToPerception camera_reversing ?e) Temporal) = f_half"
    by (simp only: Adapt_Current)
  moreover have "Limit (ErrorBudgets (AdaptToPerception camera_reversing ?e) Temporal) = f_zero"
    using reversing_limit by (simp add: Adapt_Limit camera_reversing_def)
  ultimately show ?thesis
    by (cases "ErrorBudgets (AdaptToPerception camera_reversing ?e) Temporal") simp
qed

section \<open>Admission (C1)\<close>

text \<open>
  C1, as the code has it. Memory ledger: whenever \<open>UsedBytes + bytes\<close> stays below
  \<open>2^64\<close>, \<open>Request\<close> returns true exactly when \<open>UsedBytes + bytes \<le> MaxBytes\<close>, and
  then \<open>UsedBytes\<close> grows by exactly \<open>bytes\<close>. Error ledger: \<open>Request\<close> returns true
  exactly when the rounded float sum \<open>Current + amount\<close> is not greater than \<open>Limit\<close>,
  which is \<open>sum <= Limit\<close> when neither is NaN, and then \<open>Current\<close> becomes that rounded
  sum. In both ledgers an accepted request changes that one field of that one slot and
  nothing else, and a refused request changes nothing.
\<close>

theorem Request_admission:
  "(unat (UsedBytes (Budgets s c)) + unat a < 2 ^ 64 \<longrightarrow>
      (fst (Request c a s) \<longleftrightarrow>
         unat (UsedBytes (Budgets s c)) + unat a \<le> unat (MaxBytes (Budgets s c))) \<and>
      (fst (Request c a s) \<longrightarrow>
         unat (UsedBytes (Budgets (snd (Request c a s)) c)) = unat (UsedBytes (Budgets s c)) + unat a)) \<and>
   (fst (Request c a s) \<longrightarrow>
      snd (Request c a s) =
        s\<lparr>Budgets := (Budgets s)(c := (Budgets s c)\<lparr>UsedBytes := UsedBytes (Budgets s c) + a\<rparr>)\<rparr>) \<and>
   (\<not> fst (Request c a s) \<longrightarrow> snd (Request c a s) = s) \<and>
   (fst (ErrorRequest t x e) \<longleftrightarrow>
      \<not> fgt (fadd (Current (ErrorBudgets e t)) x) (Limit (ErrorBudgets e t))) \<and>
   (\<not> is_nan (fadd (Current (ErrorBudgets e t)) x) \<and> \<not> is_nan (Limit (ErrorBudgets e t)) \<longrightarrow>
      (fst (ErrorRequest t x e) \<longleftrightarrow>
         fle (fadd (Current (ErrorBudgets e t)) x) (Limit (ErrorBudgets e t)))) \<and>
   (fst (ErrorRequest t x e) \<longrightarrow>
      snd (ErrorRequest t x e) =
        e\<lparr>ErrorBudgets := (ErrorBudgets e)(t := (ErrorBudgets e t)\<lparr>Current := fadd (Current (ErrorBudgets e t)) x\<rparr>)\<rparr>) \<and>
   (\<not> fst (ErrorRequest t x e) \<longrightarrow> snd (ErrorRequest t x e) = e)"
proof (intro conjI impI)
  assume n: "unat (UsedBytes (Budgets s c)) + unat a < 2 ^ 64"
  then have u: "unat (UsedBytes (Budgets s c) + a) = unat (UsedBytes (Budgets s c)) + unat a"
    by (simp add: unat_add64)
  show "fst (Request c a s) \<longleftrightarrow>
      unat (UsedBytes (Budgets s c)) + unat a \<le> unat (MaxBytes (Budgets s c))"
    by (simp add: Request_fst word_le_nat_alt u)
  assume "fst (Request c a s)"
  then show "unat (UsedBytes (Budgets (snd (Request c a s)) c)) = unat (UsedBytes (Budgets s c)) + unat a"
    by (simp add: Request_fst Request_snd u)
next
  assume "fst (Request c a s)"
  then show "snd (Request c a s) =
      s\<lparr>Budgets := (Budgets s)(c := (Budgets s c)\<lparr>UsedBytes := UsedBytes (Budgets s c) + a\<rparr>)\<rparr>"
    by (simp add: Request_fst Request_snd)
next
  assume "\<not> fst (Request c a s)"
  then show "snd (Request c a s) = s"
    by (simp add: Request_fst Request_snd)
next
  show "fst (ErrorRequest t x e) \<longleftrightarrow>
      \<not> fgt (fadd (Current (ErrorBudgets e t)) x) (Limit (ErrorBudgets e t))"
    by (rule ErrorRequest_fst)
next
  assume "\<not> is_nan (fadd (Current (ErrorBudgets e t)) x) \<and> \<not> is_nan (Limit (ErrorBudgets e t))"
  then show "fst (ErrorRequest t x e) \<longleftrightarrow>
      fle (fadd (Current (ErrorBudgets e t)) x) (Limit (ErrorBudgets e t))"
    by (simp add: ErrorRequest_fst not_fgt_fle)
next
  assume "fst (ErrorRequest t x e)"
  then show "snd (ErrorRequest t x e) =
      e\<lparr>ErrorBudgets := (ErrorBudgets e)(t := (ErrorBudgets e t)\<lparr>Current := fadd (Current (ErrorBudgets e t)) x\<rparr>)\<rparr>"
    by (simp add: ErrorRequest_fst ErrorRequest_snd)
next
  assume "\<not> fst (ErrorRequest t x e)"
  then show "snd (ErrorRequest t x e) = e"
    by (simp add: ErrorRequest_fst ErrorRequest_snd)
qed

text \<open>
  Witness: from \<open>frame_start\<close> (Geometry limit 30 000 000), 20 000 000 bytes are granted
  and then 15 000 000 refused with the state unchanged; a fresh error ledger grants 0.5 to
  Temporal.
\<close>

theorem Request_admission_witness:
  "unat (UsedBytes (Budgets frame_start Geometry)) + unat (20000000 :: uint64) < 2 ^ 64 \<and>
   fst (Request Geometry 20000000 frame_start) \<and>
   unat (UsedBytes (Budgets (snd (Request Geometry 20000000 frame_start)) Geometry)) = 20000000 \<and>
   \<not> fst (Request Geometry 15000000 (snd (Request Geometry 20000000 frame_start))) \<and>
   snd (Request Geometry 15000000 (snd (Request Geometry 20000000 frame_start)))
     = snd (Request Geometry 20000000 frame_start) \<and>
   fst (ErrorRequest Temporal f_half err_start) \<and>
   Current (ErrorBudgets (snd (ErrorRequest Temporal f_half err_start)) Temporal) = f_half"
proof -
  let ?s1 = "snd (Request Geometry 20000000 frame_start)"
  have n0: "unat (UsedBytes (Budgets frame_start Geometry)) + unat (20000000 :: uint64) < 2 ^ 64"
    by (simp add: frame_start_Budgets)
  have le0: "unat (UsedBytes (Budgets frame_start Geometry)) + unat (20000000 :: uint64)
      \<le> unat (MaxBytes (Budgets frame_start Geometry))"
    by (simp add: frame_start_Budgets)
  note a = Request_admission [of frame_start Geometry 20000000 Temporal f_half err_start]
  from a n0 le0 have f1: "fst (Request Geometry 20000000 frame_start)" by blast
  from a n0 f1 have u1: "unat (UsedBytes (Budgets ?s1 Geometry))
      = unat (UsedBytes (Budgets frame_start Geometry)) + unat (20000000 :: uint64)"
    by blast
  from a f1 have s1: "?s1 = frame_start\<lparr>Budgets := (Budgets frame_start)
      (Geometry := (Budgets frame_start Geometry)\<lparr>UsedBytes := UsedBytes (Budgets frame_start Geometry) + 20000000\<rparr>)\<rparr>"
    by blast
  have b1: "Budgets ?s1 Geometry = \<lparr>MaxBytes = 30000000, UsedBytes = 20000000\<rparr>"
    by (simp add: s1 frame_start_Budgets)
  note b = Request_admission [of ?s1 Geometry 15000000 Temporal f_half err_start]
  have n1: "unat (UsedBytes (Budgets ?s1 Geometry)) + unat (15000000 :: uint64) < 2 ^ 64"
    by (simp add: b1)
  have gt1: "\<not> unat (UsedBytes (Budgets ?s1 Geometry)) + unat (15000000 :: uint64)
      \<le> unat (MaxBytes (Budgets ?s1 Geometry))"
    by (simp add: b1)
  from b n1 gt1 have f2: "\<not> fst (Request Geometry 15000000 ?s1)" by blast
  from b f2 have s2: "snd (Request Geometry 15000000 ?s1) = ?s1" by blast
  have "\<not> fgt (fadd (Current (ErrorBudgets err_start Temporal)) f_half) (Limit (ErrorBudgets err_start Temporal))"
    using half_not_fgt(1) by (simp add: err_start_Budgets f_zero_plus_half)
  with a have f3: "fst (ErrorRequest Temporal f_half err_start)" by blast
  from a f3 have "snd (ErrorRequest Temporal f_half err_start) =
      err_start\<lparr>ErrorBudgets := (ErrorBudgets err_start)(Temporal := (ErrorBudgets err_start Temporal)
        \<lparr>Current := fadd (Current (ErrorBudgets err_start Temporal)) f_half\<rparr>)\<rparr>"
    by blast
  then have c3: "Current (ErrorBudgets (snd (ErrorRequest Temporal f_half err_start)) Temporal) = f_half"
    by (simp add: err_start_Budgets f_zero_plus_half)
  from n0 f1 u1 f2 s2 f3 c3 show ?thesis by (simp add: frame_start_Budgets)
qed

text \<open>
  C1 as stated fails on the memory ledger: with Geometry at 1 byte used of 30, a request
  for \<open>2^64 - 1\<close> bytes is granted although \<open>1 + (2^64 - 1) > 30\<close>, and \<open>UsedBytes\<close>
  ends at 0 instead of growing. On the error ledger the sum is rounded: with Spatial at
  0.5 of 1.0, a request for \<open>2^-30\<close> is granted and \<open>Current\<close> stays 0.5.
\<close>

theorem Request_not_exact:
  "UsedBytes (Budgets (snd (Request Geometry 1 (Initialize 100 (FrameMemoryBudgetSystem_ctor raw_mem)))) Geometry) = 1 \<and>
   MaxBytes (Budgets (snd (Request Geometry 1 (Initialize 100 (FrameMemoryBudgetSystem_ctor raw_mem)))) Geometry) = 30 \<and>
   fst (Request Geometry 0xFFFFFFFFFFFFFFFF
          (snd (Request Geometry 1 (Initialize 100 (FrameMemoryBudgetSystem_ctor raw_mem))))) \<and>
   \<not> (1 + unat (0xFFFFFFFFFFFFFFFF :: uint64) \<le> 30) \<and>
   UsedBytes (Budgets (snd (Request Geometry 0xFFFFFFFFFFFFFFFF
          (snd (Request Geometry 1 (Initialize 100 (FrameMemoryBudgetSystem_ctor raw_mem)))))) Geometry) = 0 \<and>
   Current (ErrorBudgets (snd (ErrorRequest Spatial f_half err_start)) Spatial) = f_half \<and>
   fgt 0x30800000 f_zero \<and>
   fst (ErrorRequest Spatial 0x30800000 (snd (ErrorRequest Spatial f_half err_start))) \<and>
   Current (ErrorBudgets (snd (ErrorRequest Spatial 0x30800000
          (snd (ErrorRequest Spatial f_half err_start)))) Spatial) = f_half"
proof -
  have m: "UsedBytes (Budgets (snd (Request Geometry 1 (Initialize 100 (FrameMemoryBudgetSystem_ctor raw_mem)))) Geometry) = 1 \<and>
   MaxBytes (Budgets (snd (Request Geometry 1 (Initialize 100 (FrameMemoryBudgetSystem_ctor raw_mem)))) Geometry) = 30 \<and>
   fst (Request Geometry 0xFFFFFFFFFFFFFFFF
          (snd (Request Geometry 1 (Initialize 100 (FrameMemoryBudgetSystem_ctor raw_mem))))) \<and>
   \<not> (1 + unat (0xFFFFFFFFFFFFFFFF :: uint64) \<le> 30) \<and>
   UsedBytes (Budgets (snd (Request Geometry 0xFFFFFFFFFFFFFFFF
          (snd (Request Geometry 1 (Initialize 100 (FrameMemoryBudgetSystem_ctor raw_mem)))))) Geometry) = 0"
    by (simp add: Request_fst Request_snd Initialize_Budgets)
  have v: "\<not> fgt f_half 0x3F800000" "fadd f_half 0x30800000 = f_half" "fgt 0x30800000 f_zero"
    by (simp_all add: f_defs)
  have e1: "ErrorBudgets (snd (ErrorRequest Spatial f_half err_start)) Spatial
      = \<lparr>Current = f_half, Limit = 0x3F800000\<rparr>"
    by (simp add: ErrorRequest_snd err_start_Budgets f_zero_plus_half v)
  have "fst (ErrorRequest Spatial 0x30800000 (snd (ErrorRequest Spatial f_half err_start)))"
    unfolding ErrorRequest_fst e1 by (simp add: v)
  moreover have "Current (ErrorBudgets (snd (ErrorRequest Spatial 0x30800000
          (snd (ErrorRequest Spatial f_half err_start)))) Spatial) = f_half"
    unfolding ErrorRequest_snd [of Spatial "0x30800000"] e1 by (simp add: v e1)
  ultimately show ?thesis using m v(3) by (simp add: e1)
qed

section \<open>Conservation (C2)\<close>

text \<open>
  C2, as the code has it. From a state within its limits, after every call of any
  sequence of requests (every prefix \<open>take n\<close> of it): the memory ledger has
  \<open>UsedBytes \<le> MaxBytes\<close> in every domain, whatever the amounts; the error ledger has
  \<open>Current <= Limit\<close> in every category for every sequence of finite amounts (neither NaN
  nor infinite), and, whatever the amounts, no category with \<open>Current > Limit\<close>.
\<close>

theorem request_sequence_conservation:
  assumes "mem_within s" and "err_within e"
  shows "mem_within (Requests (take n cs) s) \<and>
         (list_all (\<lambda>c. is_finite (snd c)) es \<longrightarrow> err_within (ErrorRequests (take m es) e)) \<and>
         err_not_over (ErrorRequests (take m es) e)"
proof (intro conjI impI)
  show "mem_within (Requests (take n cs) s)"
    using assms(1) by (rule Requests_mem_within)
  show "err_not_over (ErrorRequests (take m es) e)"
    using assms(2) by (intro ErrorRequests_not_over err_within_not_over)
next
  assume "list_all (\<lambda>c. is_finite (snd c)) es"
  then have "list_all (\<lambda>c. is_finite (snd c)) (take m es)" by (rule list_all_take)
  with assms(2) show "err_within (ErrorRequests (take m es) e)"
    by (rule ErrorRequests_within)
qed

text \<open>
  Witness: from \<open>frame_start\<close>, the requests for 20 000 000 and 15 000 000 bytes of
  Geometry; on a fresh error ledger, the finite request of 0.5 on Temporal.
\<close>

theorem request_sequence_conservation_witness:
  "mem_within frame_start \<and> err_within err_start \<and>
   list_all (\<lambda>c. is_finite (snd c)) [(Temporal, f_half)] \<and>
   mem_within (Requests (take 2 [(Geometry, 20000000), (Geometry, 15000000)]) frame_start) \<and>
   err_within (ErrorRequests (take 1 [(Temporal, f_half)]) err_start) \<and>
   err_not_over (ErrorRequests (take 1 [(Temporal, f_half)]) err_start)"
proof -
  have h2: "err_within err_start"
    unfolding err_start_def by (rule ctor_err_within)
  have f: "list_all (\<lambda>c. is_finite (snd c)) [(Temporal, f_half)]"
    by (simp add: half_finite)
  note t = request_sequence_conservation [OF mem_within_frame_start h2,
      of 2 "[(Geometry, 20000000), (Geometry, 15000000)]" "[(Temporal, f_half)]" 1]
  from t f mem_within_frame_start h2 show ?thesis by blast
qed

text \<open>
  C2 as stated fails on the error ledger: a freshly constructed ledger is within its
  limits, a request for NaN on Spatial is granted (\<open>NaN > Limit\<close> is false), and
  afterwards \<open>Current <= Limit\<close> no longer holds there.
\<close>

theorem nan_request_breaks_bound:
  "err_within (ErrorBudgetSystem_ctor raw_err) \<and>
   fst (ErrorRequest Spatial f_nan (ErrorBudgetSystem_ctor raw_err)) \<and>
   is_nan (Current (ErrorBudgets (snd (ErrorRequest Spatial f_nan (ErrorBudgetSystem_ctor raw_err))) Spatial)) \<and>
   \<not> err_within (snd (ErrorRequest Spatial f_nan (ErrorBudgetSystem_ctor raw_err)))"
proof -
  have s: "fadd f_zero f_nan = f_nan" using f_nan_is_nan by (simp add: fadd_def)
  have g: "\<not> fgt f_nan x" for x using f_nan_is_nan by (simp add: fgt_def flt_def)
  have l: "\<not> fle f_nan x" for x using f_nan_is_nan by (simp add: fle_def)
  have "\<not> fle (Current (ErrorBudgets (snd (ErrorRequest Spatial f_nan (ErrorBudgetSystem_ctor raw_err))) Spatial))
              (Limit (ErrorBudgets (snd (ErrorRequest Spatial f_nan (ErrorBudgetSystem_ctor raw_err))) Spatial))"
    by (simp add: ErrorRequest_snd ctor_err_Budgets s g l)
  then have "\<not> err_within (snd (ErrorRequest Spatial f_nan (ErrorBudgetSystem_ctor raw_err)))"
    unfolding err_within_iff by blast
  moreover have "fst (ErrorRequest Spatial f_nan (ErrorBudgetSystem_ctor raw_err))"
    by (simp add: ErrorRequest_fst ctor_err_Budgets s g)
  moreover have "is_nan (Current (ErrorBudgets (snd (ErrorRequest Spatial f_nan (ErrorBudgetSystem_ctor raw_err))) Spatial))"
    using f_nan_is_nan by (simp add: ErrorRequest_snd ctor_err_Budgets s g)
  ultimately show ?thesis by (simp add: ctor_err_within)
qed

section \<open>Proportional partition (C3)\<close>

text \<open>
  C3, as the code has it. For every total, \<open>Initialize\<close> sets each domain's limit to
  \<open>total * p div 100\<close> in 64-bit arithmetic, for the percentages 30, 25, 10, 8, 8, 7, 6, 6
  (which sum to 100), clears every \<open>UsedBytes\<close> and stores the total. For every total
  with \<open>total * 30 < 2^64\<close> no product wraps: each limit is \<open>total * p div 100\<close> on the
  naturals, and the eight limits sum to at most the total and to at least the total
  minus 7.
\<close>

theorem Initialize_partition:
  "(\<forall>d. MaxBytes (Budgets (Initialize t s) d) = t * of_nat (percentage d) div 100 \<and>
        UsedBytes (Budgets (Initialize t s) d) = 0) \<and>
   TotalBudget (Initialize t s) = t \<and>
   sum_list (map percentage FrameMemoryDomain_slots) = 100 \<and>
   (unat t * 30 < 2 ^ 64 \<longrightarrow>
      (\<forall>d. unat (MaxBytes (Budgets (Initialize t s) d)) = unat t * percentage d div 100) \<and>
      sum_list (map (\<lambda>d. unat (MaxBytes (Budgets (Initialize t s) d))) FrameMemoryDomain_slots) \<le> unat t \<and>
      unat t \<le> sum_list (map (\<lambda>d. unat (MaxBytes (Budgets (Initialize t s) d))) FrameMemoryDomain_slots) + 7)"
proof (intro conjI impI)
  show "\<forall>d. MaxBytes (Budgets (Initialize t s) d) = t * of_nat (percentage d) div 100 \<and>
        UsedBytes (Budgets (Initialize t s) d) = 0"
    by (simp add: Initialize_Budgets)
  show "TotalBudget (Initialize t s) = t"
    by (rule Initialize_TotalBudget)
  show "sum_list (map percentage FrameMemoryDomain_slots) = 100"
    by (simp add: FrameMemoryDomain_slots_def)
next
  assume small: "unat t * 30 < 2 ^ 64"
  have lim: "unat (MaxBytes (Budgets (Initialize t s) d)) = unat t * percentage d div 100" for d
  proof -
    have "percentage d \<le> 30" by (cases d) simp_all
    with small show ?thesis by (simp add: Initialize_Budgets unat_share)
  qed
  then show "\<forall>d. unat (MaxBytes (Budgets (Initialize t s) d)) = unat t * percentage d div 100"
    by blast
  have sum: "sum_list (map (\<lambda>d. unat (MaxBytes (Budgets (Initialize t s) d))) FrameMemoryDomain_slots)
      = unat t * 30 div 100 + unat t * 10 div 100 + unat t * 25 div 100 + unat t * 8 div 100 +
        unat t * 7 div 100 + unat t * 6 div 100 + unat t * 8 div 100 + unat t * 6 div 100"
    unfolding lim by (simp add: FrameMemoryDomain_slots_def)
  show "sum_list (map (\<lambda>d. unat (MaxBytes (Budgets (Initialize t s) d))) FrameMemoryDomain_slots) \<le> unat t"
    unfolding sum by (rule share_sum(1))
  show "unat t \<le> sum_list (map (\<lambda>d. unat (MaxBytes (Budgets (Initialize t s) d))) FrameMemoryDomain_slots) + 7"
    unfolding sum by (rule share_sum(2))
qed

text \<open>
  Witness: a total of 100 000 000 bytes gives Geometry 30 000 000 and AI 7 000 000, and
  the limits sum to at most the total.
\<close>

theorem Initialize_partition_witness:
  "unat (100000000 :: uint64) * 30 < 2 ^ 64 \<and>
   unat (MaxBytes (Budgets (Initialize 100000000 raw_mem) Geometry)) = 30000000 \<and>
   unat (MaxBytes (Budgets (Initialize 100000000 raw_mem) AI)) = 7000000 \<and>
   sum_list (map (\<lambda>d. unat (MaxBytes (Budgets (Initialize 100000000 raw_mem) d))) FrameMemoryDomain_slots)
     \<le> 100000000"
proof -
  have h: "unat (100000000 :: uint64) * 30 < 2 ^ 64" by simp
  note t = Initialize_partition [of 100000000 raw_mem]
  from t h have g: "unat (MaxBytes (Budgets (Initialize 100000000 raw_mem) Geometry))
      = unat (100000000 :: uint64) * percentage Geometry div 100"
    by blast
  from t h have a: "unat (MaxBytes (Budgets (Initialize 100000000 raw_mem) AI))
      = unat (100000000 :: uint64) * percentage AI div 100"
    by blast
  from t h have le: "sum_list (map (\<lambda>d. unat (MaxBytes (Budgets (Initialize 100000000 raw_mem) d)))
      FrameMemoryDomain_slots) \<le> unat (100000000 :: uint64)"
    by blast
  from h g a le show ?thesis by simp
qed

text \<open>
  C3 as stated fails for large totals: for \<open>2^63\<close> the product \<open>total * 30\<close> wraps to 0,
  so the Geometry limit is 0 and not \<open>2^63 * 30 div 100\<close>, and the limits sum to far less
  than the total minus 7.
\<close>

theorem Initialize_overflow:
  "MaxBytes (Budgets (Initialize 0x8000000000000000 raw_mem) Geometry) = 0 \<and>
   unat (0x8000000000000000 :: uint64) * percentage Geometry div 100 = 2767011611056432742 \<and>
   sum_list (map (\<lambda>d. unat (MaxBytes (Budgets (Initialize 0x8000000000000000 raw_mem) d))) FrameMemoryDomain_slots) + 7
     < unat (0x8000000000000000 :: uint64)"
  by (simp add: Initialize_Budgets FrameMemoryDomain_slots_def)

section \<open>Perceptual adaptation (C4)\<close>

text \<open>
  C4. For every perceptual state \<open>p\<close> and every state of a constructed error ledger,
  \<open>AdaptToPerception p\<close> sets the Temporal limit to \<open>base * (1 + CameraVelocity)\<close>,
  the Spatial limit to \<open>base * (1 + Luminance * 0.5)\<close> and the Reflection limit to
  \<open>base * (1 + FocusDepth)\<close> (float operations), leaves the Shading and Volumetric
  limits at their base constants, and leaves every \<open>Current\<close> unchanged.
\<close>

theorem AdaptToPerception_limits:
  assumes "err_reachable e"
  shows "Limit (ErrorBudgets (AdaptToPerception p e) Temporal)
           = fmul (BaseLimits Temporal) (fadd f_one (CameraVelocity p)) \<and>
         Limit (ErrorBudgets (AdaptToPerception p e) Spatial)
           = fmul (BaseLimits Spatial) (fadd f_one (fmul (Luminance p) f_half)) \<and>
         Limit (ErrorBudgets (AdaptToPerception p e) Reflection)
           = fmul (BaseLimits Reflection) (fadd f_one (FocusDepth p)) \<and>
         Limit (ErrorBudgets (AdaptToPerception p e) Shading) = BaseLimits Shading \<and>
         Limit (ErrorBudgets (AdaptToPerception p e) Volumetric) = BaseLimits Volumetric \<and>
         (\<forall>t. Current (ErrorBudgets (AdaptToPerception p e) t) = Current (ErrorBudgets e t))"
  using err_reachable_pinned [OF assms] by (simp add: Adapt_Limit Adapt_Current)

text \<open>Witness: velocity 0.5 on a fresh ledger gives the Temporal limit \<open>0.8f * 1.5f = 1.2f\<close>.\<close>

theorem AdaptToPerception_limits_witness:
  "err_reachable err_start \<and>
   Limit (ErrorBudgets (AdaptToPerception camera_moving err_start) Temporal) = 0x3F99999A \<and>
   Limit (ErrorBudgets (AdaptToPerception camera_moving err_start) Spatial) = 0x3F800000 \<and>
   Limit (ErrorBudgets (AdaptToPerception camera_moving err_start) Reflection) = 0x3F000000 \<and>
   Limit (ErrorBudgets (AdaptToPerception camera_moving err_start) Shading) = 0x3F19999A \<and>
   Limit (ErrorBudgets (AdaptToPerception camera_moving err_start) Volumetric) = 0x3F333333 \<and>
   Current (ErrorBudgets (AdaptToPerception camera_moving err_start) Temporal) = f_zero"
proof -
  have r: "err_reachable err_start"
    unfolding err_start_def by (rule er_ctor)
  note t = AdaptToPerception_limits [OF r, of camera_moving]
  have c: "CameraVelocity camera_moving = f_half" "Luminance camera_moving = f_zero"
    "FocusDepth camera_moving = f_zero"
    by (simp_all add: camera_moving_def)
  from t have "Current (ErrorBudgets (AdaptToPerception camera_moving err_start) Temporal)
      = Current (ErrorBudgets err_start Temporal)" by blast
  then have z: "Current (ErrorBudgets (AdaptToPerception camera_moving err_start) Temporal) = f_zero"
    by (simp add: err_start_Budgets)
  from t r z show ?thesis
    unfolding c adapt_values by simp
qed

section \<open>Remaining bytes (C5)\<close>

text \<open>
  C5. In every state of the memory ledger and for every domain, \<open>GetRemaining\<close> is
  \<open>max 0 (MaxBytes - UsedBytes)\<close> computed on the integers: it is never negative and does
  not wrap around when \<open>UsedBytes\<close> exceeds \<open>MaxBytes\<close>.
\<close>

theorem GetRemaining_max:
  "uint (GetRemaining s c) = max 0 (uint (MaxBytes (Budgets s c)) - uint (UsedBytes (Budgets s c)))"
proof (cases "MaxBytes (Budgets s c) > UsedBytes (Budgets s c)")
  case True
  then have "UsedBytes (Budgets s c) \<le> MaxBytes (Budgets s c)" by simp
  then have "uint (MaxBytes (Budgets s c) - UsedBytes (Budgets s c))
      = uint (MaxBytes (Budgets s c)) - uint (UsedBytes (Budgets s c))"
    by (simp add: uint_minus_simple_alt)
  moreover from True have "uint (UsedBytes (Budgets s c)) < uint (MaxBytes (Budgets s c))"
    by (simp add: word_less_def)
  ultimately show ?thesis using True by (simp add: GetRemaining_def Let_def)
next
  case False
  then have "uint (MaxBytes (Budgets s c)) \<le> uint (UsedBytes (Budgets s c))"
    by (simp add: word_less_def not_less)
  then show ?thesis using False by (simp add: GetRemaining_def Let_def)
qed

text \<open>With 20 000 000 of Geometry's 30 000 000 bytes used, 10 000 000 remain.\<close>

theorem GetRemaining_max_witness:
  "uint (GetRemaining (snd (Request Geometry 20000000 frame_start)) Geometry) = 10000000"
  using GetRemaining_max [of "snd (Request Geometry 20000000 frame_start)" Geometry]
  by (simp add: Request_snd frame_start_Budgets)

section \<open>Idempotence of the per-frame reset (C6)\<close>

text \<open>
  C6, as the code has it. \<open>BeginFrame\<close> twice is \<open>BeginFrame\<close> once, and \<open>BeginFrame\<close>
  changes nothing when every \<open>UsedBytes\<close> is zero. The error ledger's \<open>Reset\<close> twice is
  \<open>Reset\<close> once, and \<open>Reset\<close> changes nothing when every \<open>Current\<close> is \<open>0.0f\<close> and
  every \<open>Limit\<close> is at its base constant.
\<close>

theorem reset_idempotent:
  "BeginFrame (BeginFrame s) = BeginFrame s \<and>
   ((\<forall>d. UsedBytes (Budgets s d) = 0) \<longrightarrow> BeginFrame s = s) \<and>
   ErrorReset (ErrorReset e) = ErrorReset e \<and>
   ((\<forall>t. Current (ErrorBudgets e t) = f_zero \<and> Limit (ErrorBudgets e t) = BaseLimits t)
      \<longrightarrow> ErrorReset e = e)"
proof (intro conjI impI)
  show "BeginFrame (BeginFrame s) = BeginFrame s"
    by (simp add: BeginFrame_eq)
  show "ErrorReset (ErrorReset e) = ErrorReset e"
    by (simp add: ErrorReset_eq)
next
  assume z: "\<forall>d. UsedBytes (Budgets s d) = 0"
  have "(\<lambda>d. (Budgets s d)\<lparr>UsedBytes := 0\<rparr>) = Budgets s"
    by (rule ext) (simp add: z [rule_format, symmetric])
  then show "BeginFrame s = s" by (simp add: BeginFrame_eq)
next
  assume b: "\<forall>t. Current (ErrorBudgets e t) = f_zero \<and> Limit (ErrorBudgets e t) = BaseLimits t"
  have "(\<lambda>t. \<lparr>Current = f_zero, Limit = BaseLimits t\<rparr>) = ErrorBudgets e"
  proof (rule ext)
    fix t
    from b have "Current (ErrorBudgets e t) = f_zero" "Limit (ErrorBudgets e t) = BaseLimits t"
      by simp_all
    then show "\<lparr>Current = f_zero, Limit = BaseLimits t\<rparr> = ErrorBudgets e t"
      by (cases "ErrorBudgets e t") simp
  qed
  then show "ErrorReset e = e" by (cases e) (simp add: ErrorReset_eq)
qed

theorem reset_idempotent_witness:
  "list_all (\<lambda>d. UsedBytes (Budgets frame_start d) = 0) FrameMemoryDomain_slots \<and>
   BeginFrame frame_start = frame_start \<and>
   list_all (\<lambda>t. Current (ErrorBudgets err_start t) = f_zero \<and>
                  Limit (ErrorBudgets err_start t) = BaseLimits t) ErrorType_slots \<and>
   ErrorReset err_start = err_start"
proof -
  have m: "\<forall>d. UsedBytes (Budgets frame_start d) = 0"
    by (simp add: frame_start_Budgets)
  have e: "\<forall>t. Current (ErrorBudgets err_start t) = f_zero \<and>
      Limit (ErrorBudgets err_start t) = BaseLimits t"
    by (simp add: err_start_Budgets)
  from reset_idempotent [of frame_start err_start] m e
  have "BeginFrame frame_start = frame_start" "ErrorReset err_start = err_start"
    by blast+
  with m e show ?thesis by (simp add: list_all_iff)
qed

text \<open>
  C6 as stated fails on the error ledger: after \<open>AdaptToPerception\<close> with velocity 0.5
  every \<open>Current\<close> is zero, yet \<open>Reset\<close> changes the state, taking the Temporal limit
  from 1.2 back to 0.8.
\<close>

theorem reset_after_adapt:
  "list_all (\<lambda>t. Current (ErrorBudgets (AdaptToPerception camera_moving err_start) t) = f_zero)
     ErrorType_slots \<and>
   Limit (ErrorBudgets (AdaptToPerception camera_moving err_start) Temporal) = 0x3F99999A \<and>
   Limit (ErrorBudgets (ErrorReset (AdaptToPerception camera_moving err_start)) Temporal) = 0x3F4CCCCD \<and>
   ErrorReset (AdaptToPerception camera_moving err_start) \<noteq> AdaptToPerception camera_moving err_start"
proof -
  have c: "list_all (\<lambda>t. Current (ErrorBudgets (AdaptToPerception camera_moving err_start) t) = f_zero)
     ErrorType_slots"
    by (simp add: list_all_iff Adapt_Current err_start_Budgets)
  have a: "Limit (ErrorBudgets (AdaptToPerception camera_moving err_start) Temporal) = 0x3F99999A"
    using adapt_values(1) by (simp add: Adapt_Limit camera_moving_def)
  have r: "Limit (ErrorBudgets (ErrorReset (AdaptToPerception camera_moving err_start)) Temporal) = 0x3F4CCCCD"
    by (simp add: ErrorReset_Budgets)
  from a r have "ErrorReset (AdaptToPerception camera_moving err_start) \<noteq> AdaptToPerception camera_moving err_start"
    by auto
  with c a r show ?thesis by blast
qed

section \<open>Requests against a zero limit (C7)\<close>

text \<open>
  C7, as the code has it. Memory ledger: in every state of a constructed ledger, a request
  of more than zero bytes against a domain whose limit is zero is refused and changes
  nothing. Error ledger: a request of an amount greater than zero against a category whose
  limit is zero and whose \<open>Current\<close> is not negative (\<open>Current >= 0\<close>) is refused and
  changes nothing.
\<close>

theorem zero_limit_refuses:
  "(mem_reachable s \<and> MaxBytes (Budgets s c) = 0 \<and> 0 < a \<longrightarrow> Request c a s = (False, s)) \<and>
   (is_zero (Limit (ErrorBudgets e t)) \<and> fle f_zero (Current (ErrorBudgets e t)) \<and> fgt x f_zero
      \<longrightarrow> ErrorRequest t x e = (False, e))"
proof (intro conjI impI)
  assume h: "mem_reachable s \<and> MaxBytes (Budgets s c) = 0 \<and> 0 < a"
  then have "mem_within s" by (simp add: mem_reachable_within)
  then have "UsedBytes (Budgets s c) \<le> MaxBytes (Budgets s c)"
    by (simp add: mem_within_iff)
  with h have "UsedBytes (Budgets s c) = 0" by simp
  with h show "Request c a s = (False, s)"
    by (simp add: Request_def Let_def)
next
  assume h: "is_zero (Limit (ErrorBudgets e t)) \<and> fle f_zero (Current (ErrorBudgets e t)) \<and> fgt x f_zero"
  then have "\<not> is_nan (fadd (Current (ErrorBudgets e t)) x)"
    "0 < f_key (fadd (Current (ErrorBudgets e t)) x)"
    using fadd_pos by blast+
  moreover from h have "\<not> is_nan (Limit (ErrorBudgets e t))" "f_key (Limit (ErrorBudgets e t)) = 0"
    by (simp_all add: is_zero_not_nan f_key_zero)
  ultimately have "fgt (fadd (Current (ErrorBudgets e t)) x) (Limit (ErrorBudgets e t))"
    by (simp add: fgt_def flt_def)
  then show "ErrorRequest t x e = (False, e)"
    by (simp add: ErrorRequest_def Let_def)
qed

text \<open>
  Witness: a constructed, never initialised memory ledger refuses one byte; an error
  ledger that granted 0.5 to Temporal and was then adapted with velocity \<open>-1.0\<close> has
  Temporal limit \<open>0.8f * 0.0f = 0\<close> and \<open>Current = 0.5\<close>, and refuses 0.5.
\<close>

theorem zero_limit_refuses_witness:
  "mem_reachable (FrameMemoryBudgetSystem_ctor raw_mem) \<and>
   MaxBytes (Budgets (FrameMemoryBudgetSystem_ctor raw_mem) Geometry) = 0 \<and>
   Request Geometry 1 (FrameMemoryBudgetSystem_ctor raw_mem) = (False, FrameMemoryBudgetSystem_ctor raw_mem) \<and>
   is_zero (Limit (ErrorBudgets (AdaptToPerception camera_reversing
      (snd (ErrorRequest Temporal f_half err_start))) Temporal)) \<and>
   Current (ErrorBudgets (AdaptToPerception camera_reversing
      (snd (ErrorRequest Temporal f_half err_start))) Temporal) = f_half \<and>
   fle f_zero f_half \<and>
   fgt f_half f_zero \<and>
   ErrorRequest Temporal f_half (AdaptToPerception camera_reversing
      (snd (ErrorRequest Temporal f_half err_start)))
     = (False, AdaptToPerception camera_reversing (snd (ErrorRequest Temporal f_half err_start)))"
proof -
  let ?e = "AdaptToPerception camera_reversing (snd (ErrorRequest Temporal f_half err_start))"
  have m: "mem_reachable (FrameMemoryBudgetSystem_ctor raw_mem)" by (rule mr_ctor)
  have z: "MaxBytes (Budgets (FrameMemoryBudgetSystem_ctor raw_mem) Geometry) = 0"
    by (simp add: ctor_mem_Budgets)
  have p: "(0 :: uint64) < 1" by simp
  have l: "is_zero (Limit (ErrorBudgets ?e Temporal))" "Current (ErrorBudgets ?e Temporal) = f_half"
    by (simp_all add: half_used_Temporal f_zero_facts)
  have g: "fle f_zero f_half" by (simp add: f_defs)
  from g l(2) have c: "fle f_zero (Current (ErrorBudgets ?e Temporal))" by simp
  note t = zero_limit_refuses [of "FrameMemoryBudgetSystem_ctor raw_mem" Geometry 1 ?e Temporal f_half]
  from t m z p l c g half_not_fgt(3) show ?thesis by blast
qed

text \<open>
  C7 as stated fails on the error ledger: with the Temporal limit at zero, a request for
  \<open>-1.0\<close> is granted and leaves \<open>Current = -1.0\<close>; the next request, for 0.5 > 0, is
  granted as well, since \<open>-1.0 + 0.5 = -0.5\<close> is not greater than 0.
\<close>

theorem zero_limit_accepts:
  "is_zero (Limit (ErrorBudgets (snd (ErrorRequest Temporal f_minus_one
      (AdaptToPerception camera_reversing err_start))) Temporal)) \<and>
   Current (ErrorBudgets (snd (ErrorRequest Temporal f_minus_one
      (AdaptToPerception camera_reversing err_start))) Temporal) = f_minus_one \<and>
   fgt f_half f_zero \<and>
   fst (ErrorRequest Temporal f_half (snd (ErrorRequest Temporal f_minus_one
      (AdaptToPerception camera_reversing err_start)))) \<and>
   Current (ErrorBudgets (snd (ErrorRequest Temporal f_half (snd (ErrorRequest Temporal f_minus_one
      (AdaptToPerception camera_reversing err_start))))) Temporal) = 0xBF000000"
proof -
  let ?e = "AdaptToPerception camera_reversing err_start"
  have e2: "ErrorBudgets (snd (ErrorRequest Temporal f_minus_one ?e)) Temporal
      = \<lparr>Current = f_minus_one, Limit = f_zero\<rparr>"
    by (simp add: ErrorRequest_snd reversing_Temporal negative_consumed_values)
  have "fst (ErrorRequest Temporal f_half (snd (ErrorRequest Temporal f_minus_one ?e)))"
    unfolding ErrorRequest_fst e2 by (simp add: negative_consumed_values)
  moreover have "Current (ErrorBudgets (snd (ErrorRequest Temporal f_half
      (snd (ErrorRequest Temporal f_minus_one ?e)))) Temporal) = 0xBF000000"
    unfolding ErrorRequest_snd [of Temporal f_half] e2 by (simp add: negative_consumed_values e2)
  ultimately show ?thesis
    using half_not_fgt(3) by (simp add: e2 f_zero_facts)
qed

section \<open>Saturation (C8)\<close>

text \<open>
  C8, as the code has it. In every state, \<open>Saturation\<close> is not NaN, it is \<open>0.0f\<close> or one
  of the five usage ratios, and its value is the greatest among 0 and the usage ratios
  that are not NaN. So when no ratio is NaN and some ratio is at least 0, every ratio is
  \<open><=\<close> \<open>Saturation\<close> and \<open>Saturation\<close> has the value of one of them: it is their
  maximum.
\<close>

theorem Saturation_max:
  "\<not> is_nan (Saturation e) \<and>
   f_key (Saturation e)
     = Max (set (0 # map f_key (filter (\<lambda>r. \<not> is_nan r) (map (GetUsage e) ErrorType_slots)))) \<and>
   Saturation e \<in> set (f_zero # map (GetUsage e) ErrorType_slots) \<and>
   ((\<forall>t. \<not> is_nan (GetUsage e t)) \<and> (\<exists>t. fle f_zero (GetUsage e t)) \<longrightarrow>
      (\<forall>t. fle (GetUsage e t) (Saturation e)) \<and>
      (\<exists>t. f_key (Saturation e) = f_key (GetUsage e t)))"
proof -
  let ?R = "map (GetUsage e) ErrorType_slots"
  note k = fmax_fold_key [OF f_zero_facts(2), of ?R]
  from k have nn: "\<not> is_nan (Saturation e)"
    by (simp add: Saturation_fold)
  from k have key: "f_key (Saturation e)
      = Max (set (0 # map f_key (filter (\<lambda>r. \<not> is_nan r) ?R)))"
    by (simp add: Saturation_fold f_zero_facts(3))
  from k have mem: "Saturation e \<in> set (f_zero # ?R)"
    by (simp add: Saturation_fold)
  have last: "(\<forall>t. fle (GetUsage e t) (Saturation e)) \<and>
      (\<exists>t. f_key (Saturation e) = f_key (GetUsage e t))"
    if all: "\<forall>t. \<not> is_nan (GetUsage e t)" and ex: "\<exists>t. fle f_zero (GetUsage e t)"
  proof
    have f: "filter (\<lambda>r. \<not> is_nan r) ?R = ?R"
      using all by (simp add: filter_id_conv)
    have ge: "f_key (GetUsage e t) \<le> f_key (Saturation e)" for t
    proof -
      have "f_key (GetUsage e t) \<in> set (0 # map f_key ?R)"
        by (simp add: err_slots_all)
      then show ?thesis unfolding key f by (intro Max_ge) simp_all
    qed
    then show "\<forall>t. fle (GetUsage e t) (Saturation e)"
      using all nn by (simp add: fle_def)
    show "\<exists>t. f_key (Saturation e) = f_key (GetUsage e t)"
    proof (cases "Saturation e = f_zero")
      case True
      from ex obtain t where "fle f_zero (GetUsage e t)" by blast
      then have "0 \<le> f_key (GetUsage e t)" by (simp add: fle_def f_zero_facts(3))
      moreover have "f_key (GetUsage e t) \<le> 0" using ge [of t] True by (simp add: f_zero_facts(3))
      ultimately have "f_key (Saturation e) = f_key (GetUsage e t)"
        using True by (simp add: f_zero_facts(3))
      then show ?thesis by blast
    next
      case False
      with mem have "Saturation e \<in> set ?R" by simp
      then show ?thesis by auto
    qed
  qed
  from nn key mem last show ?thesis by blast
qed

text \<open>
  Witness: after velocity 0.5 and a granted request of 1.0 on Temporal, the ratios are
  \<open>1.0 / 1.2\<close> for Temporal and 0 elsewhere, and \<open>Saturation\<close> has the value of
  \<open>1.0f / 1.2f\<close>.
\<close>

theorem Saturation_max_witness:
  "list_all (\<lambda>t. \<not> is_nan (GetUsage (snd (ErrorRequest Temporal f_one
      (AdaptToPerception camera_moving err_start))) t)) ErrorType_slots \<and>
   fle f_zero (GetUsage (snd (ErrorRequest Temporal f_one
      (AdaptToPerception camera_moving err_start))) Temporal) \<and>
   list_all (\<lambda>t. fle (GetUsage (snd (ErrorRequest Temporal f_one
      (AdaptToPerception camera_moving err_start))) t)
      (Saturation (snd (ErrorRequest Temporal f_one (AdaptToPerception camera_moving err_start)))))
      ErrorType_slots \<and>
   f_key (Saturation (snd (ErrorRequest Temporal f_one (AdaptToPerception camera_moving err_start))))
     = f_key (0x3F555555 :: float32)"
proof -
  let ?e = "snd (ErrorRequest Temporal f_one (AdaptToPerception camera_moving err_start))"
  have v: "\<not> is_nan (0x3F555555 :: float32)" "fle f_zero 0x3F555555" "\<not> is_nan f_zero"
    "f_key f_zero = 0" "f_key (0x3F555555 :: float32) = 1062557013"
    by (simp_all add: f_defs)
  have nn: "\<forall>t. \<not> is_nan (GetUsage ?e t)"
    by (simp add: scenario_B_usage v)
  have ex: "fle f_zero (GetUsage ?e Temporal)"
    by (simp add: scenario_B_usage v)
  note t = Saturation_max [of ?e]
  from t nn ex have le: "\<forall>t. fle (GetUsage ?e t) (Saturation ?e)" by blast
  from t have "f_key (Saturation ?e)
     = Max (set (0 # map f_key (filter (\<lambda>r. \<not> is_nan r) (map (GetUsage ?e) ErrorType_slots))))"
    by blast
  then have "f_key (Saturation ?e) = f_key (0x3F555555 :: float32)"
    by (simp add: scenario_B_usage ErrorType_slots_def v)
  with nn ex le show ?thesis by (simp add: list_all_iff)
qed

text \<open>
  C8 as stated fails when every ratio is negative: after one granted request per category
  for minus its base limit, every limit is non-zero and every usage ratio is \<open>-1.0\<close>, but
  \<open>Saturation\<close> is \<open>0.0\<close>, which is greater than their maximum.
\<close>

theorem Saturation_negative:
  "list_all (\<lambda>t. \<not> is_zero (Limit (ErrorBudgets (ErrorRequests all_negative err_start) t))) ErrorType_slots \<and>
   map (GetUsage (ErrorRequests all_negative err_start)) ErrorType_slots
     = [0xBF800000, 0xBF800000, 0xBF800000, 0xBF800000, 0xBF800000] \<and>
   Saturation (ErrorRequests all_negative err_start) = f_zero \<and>
   flt 0xBF800000 f_zero"
proof -
  have d: "fdiv 0xBF800000 0x3F800000 = 0xBF800000" "fdiv 0xBF4CCCCD 0x3F4CCCCD = 0xBF800000"
    "fdiv 0xBF19999A 0x3F19999A = 0xBF800000" "fdiv 0xBF000000 0x3F000000 = 0xBF800000"
    "fdiv 0xBF333333 0x3F333333 = 0xBF800000"
    by (simp_all add: f_defs)
  have u: "map (GetUsage (ErrorRequests all_negative err_start)) ErrorType_slots
     = [0xBF800000, 0xBF800000, 0xBF800000, 0xBF800000, 0xBF800000]"
    by (simp add: ErrorType_slots_def GetUsage_def all_negative_state d)
  have m: "fmax f_zero 0xBF800000 = f_zero" "flt 0xBF800000 f_zero"
    by (simp_all add: f_defs)
  have s: "Saturation (ErrorRequests all_negative err_start) = f_zero"
    unfolding Saturation_fold u by (simp add: m)
  have l: "list_all (\<lambda>t. \<not> is_zero (Limit (ErrorBudgets (ErrorRequests all_negative err_start) t))) ErrorType_slots"
    by (simp add: list_all_iff all_negative_state BaseLimits_nonzero)
  from l u s m show ?thesis by blast
qed

section \<open>The constructed state (C9)\<close>

text \<open>
  C9, as the code has it. Whatever the storage held before, a constructed memory ledger has
  every \<open>MaxBytes\<close>, every \<open>UsedBytes\<close> and \<open>TotalBudget\<close> at zero; a constructed error
  ledger has every \<open>Current\<close> at \<open>0.0f\<close> and every \<open>Limit\<close> at its base constant, none
  of which is zero.
\<close>

theorem constructed_state:
  "(\<forall>d. Budgets (FrameMemoryBudgetSystem_ctor raw) d = \<lparr>MaxBytes = 0, UsedBytes = 0\<rparr>) \<and>
   TotalBudget (FrameMemoryBudgetSystem_ctor raw) = 0 \<and>
   (\<forall>t. Current (ErrorBudgets (ErrorBudgetSystem_ctor raw') t) = f_zero \<and>
        Limit (ErrorBudgets (ErrorBudgetSystem_ctor raw') t) = BaseLimits t \<and>
        \<not> is_zero (BaseLimits t))"
  by (simp add: ctor_mem_Budgets ctor_err_Budgets BaseLimits_nonzero)
     (simp add: FrameMemoryBudgetSystem_ctor_def Reset_def)

theorem constructed_state_witness:
  "Budgets (FrameMemoryBudgetSystem_ctor raw_mem) Geometry = \<lparr>MaxBytes = 0, UsedBytes = 0\<rparr> \<and>
   TotalBudget (FrameMemoryBudgetSystem_ctor raw_mem) = 0 \<and>
   Current (ErrorBudgets (ErrorBudgetSystem_ctor raw_err) Temporal) = f_zero \<and>
   Limit (ErrorBudgets (ErrorBudgetSystem_ctor raw_err) Temporal) = 0x3F4CCCCD"
proof -
  note t = constructed_state [of raw_mem raw_err]
  from t have "Budgets (FrameMemoryBudgetSystem_ctor raw_mem) Geometry = \<lparr>MaxBytes = 0, UsedBytes = 0\<rparr>"
    by blast
  moreover from t have "TotalBudget (FrameMemoryBudgetSystem_ctor raw_mem) = 0"
    by blast
  moreover from t have "Current (ErrorBudgets (ErrorBudgetSystem_ctor raw_err) Temporal) = f_zero"
    by blast
  moreover from t have "Limit (ErrorBudgets (ErrorBudgetSystem_ctor raw_err) Temporal) = BaseLimits Temporal"
    by blast
  ultimately show ?thesis by simp
qed

text \<open>
  C9 as stated fails on the error ledger: right after construction the Spatial limit is
  \<open>1.0f\<close>, not zero.
\<close>

theorem constructed_limit_nonzero:
  "Limit (ErrorBudgets (ErrorBudgetSystem_ctor raw_err) Spatial) = 0x3F800000 \<and>
   Limit (ErrorBudgets (ErrorBudgetSystem_ctor raw_err) Spatial) \<noteq> f_zero \<and>
   \<not> is_zero (Limit (ErrorBudgets (ErrorBudgetSystem_ctor raw_err) Spatial))"
  using BaseLimits_nonzero [of Spatial] by (simp add: ctor_err_Budgets f_zero_def)

section \<open>Modular arithmetic of the memory ledger's Request (C10)\<close>

text \<open>
  C10. In every state the memory ledger's \<open>Request\<close> tests
  \<open>(UsedBytes + bytes) mod 2^64 \<le> MaxBytes\<close> and, when it accepts, sets \<open>UsedBytes\<close> to
  \<open>(UsedBytes + bytes) mod 2^64\<close>; and there is a state of a constructed ledger and an
  amount whose exact sum \<open>UsedBytes + bytes\<close> exceeds both the limit and \<open>2^64\<close> and
  whose request is accepted.
\<close>

theorem Request_modular:
  "(fst (Request d b s) \<longleftrightarrow>
      (unat (UsedBytes (Budgets s d)) + unat b) mod 2 ^ 64 \<le> unat (MaxBytes (Budgets s d))) \<and>
   (fst (Request d b s) \<longrightarrow>
      unat (UsedBytes (Budgets (snd (Request d b s)) d))
        = (unat (UsedBytes (Budgets s d)) + unat b) mod 2 ^ 64) \<and>
   (\<exists>s' d' b'. mem_reachable s' \<and>
      unat (MaxBytes (Budgets s' d')) < unat (UsedBytes (Budgets s' d')) + unat b' \<and>
      2 ^ 64 < unat (UsedBytes (Budgets s' d')) + unat b' \<and>
      fst (Request d' b' s'))"
proof (intro conjI)
  show "fst (Request d b s) \<longleftrightarrow>
      (unat (UsedBytes (Budgets s d)) + unat b) mod 2 ^ 64 \<le> unat (MaxBytes (Budgets s d))"
    by (simp add: Request_fst word_le_nat_alt unat_add64)
  show "fst (Request d b s) \<longrightarrow>
      unat (UsedBytes (Budgets (snd (Request d b s)) d))
        = (unat (UsedBytes (Budgets s d)) + unat b) mod 2 ^ 64"
    by (simp add: Request_fst Request_snd unat_add64)
  let ?s = "snd (Request Geometry 2 (Initialize 100 (FrameMemoryBudgetSystem_ctor raw_mem)))"
  have r: "mem_reachable ?s"
    by (intro mr_Request mr_Initialize mr_ctor)
  have "unat (MaxBytes (Budgets ?s Geometry)) < unat (UsedBytes (Budgets ?s Geometry)) + unat (0xFFFFFFFFFFFFFFFF :: uint64)"
    "2 ^ 64 < unat (UsedBytes (Budgets ?s Geometry)) + unat (0xFFFFFFFFFFFFFFFF :: uint64)"
    "fst (Request Geometry 0xFFFFFFFFFFFFFFFF ?s)"
    by (simp_all add: two_bytes_used Request_fst)
  with r show "\<exists>s' d' b'. mem_reachable s' \<and>
      unat (MaxBytes (Budgets s' d')) < unat (UsedBytes (Budgets s' d')) + unat b' \<and>
      2 ^ 64 < unat (UsedBytes (Budgets s' d')) + unat b' \<and>
      fst (Request d' b' s')"
    by blast
qed

text \<open>
  Witness: with Geometry at 2 bytes used of 30, the request for \<open>2^64 - 1\<close> bytes has
  the exact sum \<open>2^64 + 1\<close>; it is accepted and leaves \<open>UsedBytes = 1\<close>.
\<close>

theorem Request_modular_witness:
  "2 ^ 64 < unat (UsedBytes (Budgets (snd (Request Geometry 2
      (Initialize 100 (FrameMemoryBudgetSystem_ctor raw_mem)))) Geometry)) + unat (0xFFFFFFFFFFFFFFFF :: uint64) \<and>
   fst (Request Geometry 0xFFFFFFFFFFFFFFFF
      (snd (Request Geometry 2 (Initialize 100 (FrameMemoryBudgetSystem_ctor raw_mem))))) \<and>
   unat (UsedBytes (Budgets (snd (Request Geometry 0xFFFFFFFFFFFFFFFF
      (snd (Request Geometry 2 (Initialize 100 (FrameMemoryBudgetSystem_ctor raw_mem)))))) Geometry)) = 1"
proof -
  let ?s = "snd (Request Geometry 2 (Initialize 100 (FrameMemoryBudgetSystem_ctor raw_mem)))"
  note t = Request_modular [of Geometry "0xFFFFFFFFFFFFFFFF" ?s]
  have big: "2 ^ 64 < unat (UsedBytes (Budgets ?s Geometry)) + unat (0xFFFFFFFFFFFFFFFF :: uint64)"
    by (simp add: two_bytes_used)
  have v: "(unat (UsedBytes (Budgets ?s Geometry)) + unat (0xFFFFFFFFFFFFFFFF :: uint64)) mod 2 ^ 64 = 1"
    "unat (MaxBytes (Budgets ?s Geometry)) = 30"
    by (simp_all add: two_bytes_used)
  from t v have f: "fst (Request Geometry 0xFFFFFFFFFFFFFFFF ?s)" by simp
  from t f v have "unat (UsedBytes (Budgets (snd (Request Geometry 0xFFFFFFFFFFFFFFFF ?s)) Geometry)) = 1"
    by simp
  with big f show ?thesis by blast
qed

end
